theory Spec2Isabelle
  imports Main "HOL-Library.Word"
begin

unbundle bit_operations_syntax

section \<open>Machine types and constants of ampere-host-error-monitor.cpp\<close>

type_synonym u8 = "8 word"
type_synonym u16 = "16 word"
type_synonym u32 = "32 word"
type_synonym u64 = "64 word"

named_theorems ras_consts \<open>values of the constants of namespace ampere::ras\<close>

definition MAX_MSG_LEN :: nat where [ras_consts]: "MAX_MSG_LEN = 128"
definition TYPE_TEMP :: u8 where [ras_consts]: "TYPE_TEMP = 0x03"
definition TYPE_STATE :: u8 where [ras_consts]: "TYPE_STATE = 0x05"
definition TYPE_OTHER :: u8 where [ras_consts]: "TYPE_OTHER = 0x12"
definition TYPE_MEM :: u8 where [ras_consts]: "TYPE_MEM = 0x0C"
definition TYPE_CORE :: u8 where [ras_consts]: "TYPE_CORE = 0x07"
definition TYPE_PCIE :: u8 where [ras_consts]: "TYPE_PCIE = 0x13"
definition TYPE_SMPM :: u8 where [ras_consts]: "TYPE_SMPM = 0xCA"
definition CE_CORE_IERR :: u8 where [ras_consts]: "CE_CORE_IERR = 139"
definition UE_CORE_IERR :: u8 where [ras_consts]: "UE_CORE_IERR = 140"
definition CE_OTHER_IERR :: u8 where [ras_consts]: "CE_OTHER_IERR = 141"
definition UE_OTHER_IERR :: u8 where [ras_consts]: "UE_OTHER_IERR = 142"
definition CE_MEM_IERR :: u8 where [ras_consts]: "CE_MEM_IERR = 151"
definition UE_MEM_IERR :: u8 where [ras_consts]: "UE_MEM_IERR = 168"
definition CE_PCIE_IERR :: u8 where [ras_consts]: "CE_PCIE_IERR = 191"
definition UE_PCIE_IERR :: u8 where [ras_consts]: "UE_PCIE_IERR = 202"
definition SMPRO_IERR :: u8 where [ras_consts]: "SMPRO_IERR = 147"
definition PMPRO_IERR :: u8 where [ras_consts]: "PMPRO_IERR = 148"

definition S0_DIMM_HOT :: u8 where [ras_consts]: "S0_DIMM_HOT = 160"
definition S0_VRD_HOT :: u8 where [ras_consts]: "S0_VRD_HOT = 180"
definition S0_VRD_WARN_FAULT :: u8 where [ras_consts]: "S0_VRD_WARN_FAULT = 181"
definition S0_DIMM_2X_REFRESSH :: u8 where [ras_consts]: "S0_DIMM_2X_REFRESSH = 162"
definition S1_DIMM_HOT :: u8 where [ras_consts]: "S1_DIMM_HOT = 161"
definition S1_VRD_HOT :: u8 where [ras_consts]: "S1_VRD_HOT = 183"
definition S1_VRD_WARN_FAULT :: u8 where [ras_consts]: "S1_VRD_WARN_FAULT = 184"
definition S1_DIMM_2X_REFRESSH :: u8 where [ras_consts]: "S1_DIMM_2X_REFRESSH = 163"

definition DIR_ASSERTED :: u8 where [ras_consts]: "DIR_ASSERTED = 0"
definition DIR_DEASSERTED :: u8 where [ras_consts]: "DIR_DEASSERTED = 1"

definition SMPMPRO_WARNING :: u8 where [ras_consts]: "SMPMPRO_WARNING = 1"
definition SMPMPRO_ERROR :: u8 where [ras_consts]: "SMPMPRO_ERROR = 2"
definition SMPRO_IERR_TYPE :: u8 where [ras_consts]: "SMPRO_IERR_TYPE = 0"
definition PMPRO_IERR_TYPE :: u8 where [ras_consts]: "PMPRO_IERR_TYPE = 1"

definition IERR_SENSOR_SPECIFIC :: u8 where [ras_consts]: "IERR_SENSOR_SPECIFIC = 0x71"
definition TEMP_READ_TYPE :: u8 where [ras_consts]: "TEMP_READ_TYPE = 0x5"
definition STATUS_READ_TYPE :: u8 where [ras_consts]: "STATUS_READ_TYPE = 0x3"

definition EVENT_DATA_1 :: u8 where [ras_consts]: "EVENT_DATA_1 = 0x80"
definition EVENT_DATA_3 :: u8 where [ras_consts]: "EVENT_DATA_3 = 0x20"

definition SOC_COMPONENT :: u8 where [ras_consts]: "SOC_COMPONENT = 0x00"
definition CORE_COMPONENT :: u8 where [ras_consts]: "CORE_COMPONENT = 0x01"
definition DIMM_COMPONENT :: u8 where [ras_consts]: "DIMM_COMPONENT = 0x02"

definition VRD_1 :: u8 where [ras_consts]: "VRD_1 = 0x01"
definition VRD_2 :: u8 where [ras_consts]: "VRD_2 = 0x02"
definition VRD_3 :: u8 where [ras_consts]: "VRD_3 = 0x03"
definition VRD_4 :: u8 where [ras_consts]: "VRD_4 = 0x04"

definition BIT_0 :: u16 where [ras_consts]: "BIT_0 = 0x0001"
definition BIT_1 :: u16 where [ras_consts]: "BIT_1 = 0x0002"
definition BIT_2 :: u16 where [ras_consts]: "BIT_2 = 0x0004"
definition BIT_3 :: u16 where [ras_consts]: "BIT_3 = 0x0008"
definition BIT_4 :: u16 where [ras_consts]: "BIT_4 = 0x0010"
definition BIT_5 :: u16 where [ras_consts]: "BIT_5 = 0x0020"
definition BIT_6 :: u16 where [ras_consts]: "BIT_6 = 0x0040"
definition BIT_7 :: u16 where [ras_consts]: "BIT_7 = 0x0080"
definition BIT_8 :: u16 where [ras_consts]: "BIT_8 = 0x0100"
definition BIT_9 :: u16 where [ras_consts]: "BIT_9 = 0x0200"
definition BIT_10 :: u16 where [ras_consts]: "BIT_10 = 0x0400"
definition BIT_11 :: u16 where [ras_consts]: "BIT_11 = 0x0800"

definition SMPRO_DATA_REG_SIZE :: nat where [ras_consts]: "SMPRO_DATA_REG_SIZE = 16"
definition AMPERE_IANA_BYTE_1 :: u8 where [ras_consts]: "AMPERE_IANA_BYTE_1 = 0x3A"
definition AMPERE_IANA_BYTE_2 :: u8 where [ras_consts]: "AMPERE_IANA_BYTE_2 = 0xCD"
definition AMPERE_IANA_BYTE_3 :: u8 where [ras_consts]: "AMPERE_IANA_BYTE_3 = 0x00"
definition NUMBER_DIMM_CHANNEL :: nat where [ras_consts]: "NUMBER_DIMM_CHANNEL = 8"

definition AMPERE_REFISH_REGISTRY :: string where
  [ras_consts]: "AMPERE_REFISH_REGISTRY = ''AmpereCritical''"
definition createFlagCmd :: string where
  [ras_consts]: "createFlagCmd = ''touch /tmp/fault_RAS_UE''"

text \<open>selUtils.hpp\<close>

definition IPMI_SEL_OEM_RECORD_TYPE :: u8 where [ras_consts]: "IPMI_SEL_OEM_RECORD_TYPE = 0xC0"
definition SEL_OEM_DATA_MAX_SIZE :: nat where [ras_consts]: "SEL_OEM_DATA_MAX_SIZE = 12"

text \<open>The enumerators of \<open>ErrorTypes\<close> and \<open>EventTypes\<close>, as the \<open>u_int8_t\<close> values the
  tables store them in.\<close>

definition errors_core_ue :: u8 where [ras_consts]: "errors_core_ue = 0"
definition errors_mem_ue :: u8 where [ras_consts]: "errors_mem_ue = 1"
definition errors_pcie_ue :: u8 where [ras_consts]: "errors_pcie_ue = 2"
definition errors_other_ue :: u8 where [ras_consts]: "errors_other_ue = 3"
definition errors_core_ce :: u8 where [ras_consts]: "errors_core_ce = 4"
definition errors_mem_ce :: u8 where [ras_consts]: "errors_mem_ce = 5"
definition errors_pcie_ce :: u8 where [ras_consts]: "errors_pcie_ce = 6"
definition errors_other_ce :: u8 where [ras_consts]: "errors_other_ce = 7"
definition errors_smpro :: u8 where [ras_consts]: "errors_smpro = 8"
definition errors_pmpro :: u8 where [ras_consts]: "errors_pmpro = 9"

definition event_vrd_warn_fault :: u8 where [ras_consts]: "event_vrd_warn_fault = 0"
definition event_vrd_hot :: u8 where [ras_consts]: "event_vrd_hot = 1"
definition event_dimm_hot :: u8 where [ras_consts]: "event_dimm_hot = 2"
definition event_dimm_2x_refresh :: u8 where [ras_consts]: "event_dimm_2x_refresh = 3"

section \<open>Text formatting\<close>

text \<open>\<open>snprintf(buf, n, ...)\<close> keeps at most \<open>n - 1\<close> characters of the formatted text.\<close>

definition snprintf :: "nat \<Rightarrow> string \<Rightarrow> string" where
  "snprintf n s = take (n - 1) s"

definition digitChar :: "nat \<Rightarrow> char" where
  "digitChar d = ''0123456789abcdef'' ! d"

text \<open>\<open>%d\<close> of a non-negative value and \<open>%x\<close>.\<close>

function showDec :: "nat \<Rightarrow> string" where
  "showDec n = (if n < 10 then [digitChar n] else showDec (n div 10) @ [digitChar (n mod 10)])"
  by pat_completeness auto
termination
  by (relation "measure id") auto

function showHex :: "nat \<Rightarrow> string" where
  "showHex n = (if n < 16 then [digitChar n] else showHex (n div 16) @ [digitChar (n mod 16)])"
  by pat_completeness auto
termination
  by (relation "measure id") auto

declare showDec.simps [simp del] showHex.simps [simp del]

text \<open>\<open>%08x\<close>: at least eight digits, padded with zeros on the left.\<close>

definition showHex08 :: "nat \<Rightarrow> string" where
  "showHex08 n = replicate (8 - length (showHex n)) (CHR ''0'') @ showHex n"

section \<open>The outside world\<close>

text \<open>
  The daemon acts on its environment in three ways: \<open>ampere::sel::addSelOem\<close> (a D-Bus
  call \<open>IpmiSelAddOem\<close> with a message, the payload and the record type),
  \<open>sd_journal_send\<close> (a Redfish message id and its arguments) and \<open>std::system\<close>
  (a shell command). The model records them in the order they are issued. The only
  state the daemon itself keeps is the global array \<open>curEventMask\<close>. The function
  \<open>sd_journal_send\<close> below is a call whose argument list ends with \<open>NULL\<close>, as the
  library requires.
\<close>

datatype effect =
    AddSelOem string "u8 list" u8
  | JournalSend string "string list"
  | System string

record world =
  curEventMask :: "u16 list"
  trace :: "effect list"

definition addSelOem :: "string \<Rightarrow> u8 list \<Rightarrow> world \<Rightarrow> world" where
  "addSelOem message selData w =
     w\<lparr>trace := trace w @ [AddSelOem message selData IPMI_SEL_OEM_RECORD_TYPE]\<rparr>"

definition sd_journal_send :: "string \<Rightarrow> string list \<Rightarrow> world \<Rightarrow> world" where
  "sd_journal_send msgID args w = w\<lparr>trace := trace w @ [JournalSend msgID args]\<rparr>"

definition std_system :: "string \<Rightarrow> world \<Rightarrow> world" where
  "std_system cmd w = w\<lparr>trace := trace w @ [System cmd]\<rparr>"

section \<open>The records of the bus and firmware errors\<close>

text \<open>
  \<open>struct ErrorFields\<close>, \<open>struct ErrorData\<close>, \<open>struct ErrorInfo\<close> and
  \<open>struct InternalFields\<close>. Where two structs have a field of one name, the field of
  the struct declared first is written with its struct (\<open>ErrorFields.errType\<close>), or
  prefixed (\<open>ei_\<close>, \<open>if_\<close>).
\<close>

text \<open>(The field \<open>instance\<close> is written \<open>instance'\<close>: the plain name is a keyword.)\<close>

record ErrorFields =
  errType :: u8
  subType :: u8
  instance' :: u16
  status :: u32
  address :: u64
  misc0 :: u64
  misc1 :: u64
  misc2 :: u64
  misc3 :: u64

record ErrorData =
  socket :: u16
  intErrorType :: u8
  label :: string
  errType :: u8
  errNum :: u8
  errName :: string
  redFishMsgID :: string

record ErrorInfo =
  ei_errType :: u8
  ei_subType :: u8
  numPars :: u8
  ei_errName :: string
  errMsgFormat :: string

text \<open>
  The tables of \<open>internalErrors.hpp\<close> and their sizes. The header is not among the
  sources, so they are parameters of the model.
\<close>

record internalTables =
  NUM_LOCAL_CODES :: nat
  localCodes :: "string list"
  NUM_IMAGE_CODES :: nat
  imageCodes :: "string list"
  NUM_ERROR_CODES :: nat
  errorCodes :: "string list"
  NUM_DIRS :: nat
  directions :: "string list"

record InternalFields =
  if_errType :: u8
  if_subType :: u8
  imageCode :: u8
  dir :: u8
  location :: u8
  errCode :: u16
  if_data :: u32

section \<open>Events: the table and the four handlers\<close>

record EventFields =
  type :: u8
  data :: u16

record EventData =
  idx :: u8
  socket :: u16
  intEventType :: u8
  label :: string
  eventType :: u8
  eventReadType :: u8
  eventNum :: u8
  eventName :: string
  redFishMsgID :: string

definition eventTypeTable :: "EventData list" where
  "eventTypeTable = [
    \<lparr>idx = 0, socket = 0, intEventType = event_vrd_warn_fault, label = ''event_vrd_warn_fault'',
      eventType = TYPE_STATE, eventReadType = STATUS_READ_TYPE, eventNum = S0_VRD_WARN_FAULT,
      eventName = ''VR_WarnFault'', redFishMsgID = ''AmpereWarning''\<rparr>,
    \<lparr>idx = 1, socket = 0, intEventType = event_vrd_hot, label = ''event_vrd_hot'',
      eventType = TYPE_TEMP, eventReadType = TEMP_READ_TYPE, eventNum = S0_VRD_HOT,
      eventName = ''VR_HOT'', redFishMsgID = ''AmpereWarning''\<rparr>,
    \<lparr>idx = 2, socket = 0, intEventType = event_dimm_hot, label = ''event_dimm_hot'',
      eventType = TYPE_TEMP, eventReadType = TEMP_READ_TYPE, eventNum = S0_DIMM_HOT,
      eventName = ''DIMM_HOT'', redFishMsgID = ''AmpereWarning''\<rparr>,
    \<lparr>idx = 3, socket = 1, intEventType = event_vrd_warn_fault, label = ''event_vrd_warn_fault'',
      eventType = TYPE_STATE, eventReadType = STATUS_READ_TYPE, eventNum = S1_VRD_WARN_FAULT,
      eventName = ''VR_WarnFault'', redFishMsgID = ''AmpereWarning''\<rparr>,
    \<lparr>idx = 4, socket = 1, intEventType = event_vrd_hot, label = ''event_vrd_hot'',
      eventType = TYPE_TEMP, eventReadType = TEMP_READ_TYPE, eventNum = S1_VRD_HOT,
      eventName = ''VR_HOT'', redFishMsgID = ''AmpereWarning''\<rparr>,
    \<lparr>idx = 5, socket = 1, intEventType = event_dimm_hot, label = ''event_dimm_hot'',
      eventType = TYPE_TEMP, eventReadType = TEMP_READ_TYPE, eventNum = S1_DIMM_HOT,
      eventName = ''DIMM_HOT'', redFishMsgID = ''AmpereWarning''\<rparr>,
    \<lparr>idx = 6, socket = 0, intEventType = event_dimm_2x_refresh, label = ''event_dimm_2x_refresh'',
      eventType = TYPE_MEM, eventReadType = STATUS_READ_TYPE, eventNum = S0_DIMM_2X_REFRESSH,
      eventName = ''DIMM_2X_REFRESH_RATE'', redFishMsgID = ''AmpereWarning''\<rparr>,
    \<lparr>idx = 7, socket = 1, intEventType = event_dimm_2x_refresh, label = ''event_dimm_2x_refresh'',
      eventType = TYPE_MEM, eventReadType = STATUS_READ_TYPE, eventNum = S1_DIMM_2X_REFRESSH,
      eventName = ''DIMM_2X_REFRESH_RATE'', redFishMsgID = ''AmpereWarning''\<rparr>]"

definition NUMBER_OF_EVENTS :: nat where
  "NUMBER_OF_EVENTS = length eventTypeTable"

text \<open>\<open>u_int16_t curEventMask[NUMBER_OF_EVENTS] = {}\<close>, with nothing logged yet.\<close>

definition initialWorld :: world where
  "initialWorld = \<lparr>curEventMask = replicate NUMBER_OF_EVENTS 0, trace = []\<rparr>"

text \<open>
  Every handler is a sequence of blocks of one shape, one block per mask bit it looks at:
  \<^verbatim>\<open>
    if ((eFields.data & BIT) && (!(currentMask & BIT)))       { ... "Asserted." }
    else if ((!(eFields.data & BIT)) && (currentMask & BIT))  { ... "Deasserted." }
  \<close>
  The VRD handlers write the blocks out, the DIMM handlers loop over them. A block differs
  from the next in its bit mask, in the bytes 7 and 8 of the payload and in the component
  text; \<open>br_early\<close> says that bytes 7 and 8 are written before the test
  (\<open>logEventDIMM2xRefresh\<close>) and not inside the branch that fires (the other three).
\<close>

record branch =
  br_mask :: u16
  br_early :: bool
  br_b7 :: u8
  br_b8 :: u8
  br_comp :: string

text \<open>
  What a block that fires hands to the two sinks: the payload of its \<open>addSelOem\<close> call and
  the message id and arguments of its \<open>sd_journal_send\<close> call. \<open>em_mask\<close> and \<open>em_dir\<close>
  name the block (its bit mask) and the branch (\<open>DIR_ASSERTED\<close> or \<open>DIR_DEASSERTED\<close>)
  that made the calls.
\<close>

record emission =
  em_mask :: u16
  em_dir :: u8
  em_sel :: "u8 list"
  em_msgid :: string
  em_args :: "string list"

text \<open>
  The body of a branch that fires. \<open>(DIR << 7) | data.eventReadType\<close> is computed in
  \<open>int\<close> and stored into a \<open>uint8_t\<close>; keeping the low eight bits commutes with \<open><<\<close> and
  \<open>|\<close>, so the model computes in \<open>u8\<close>. \<open>upd\<close> is the new value of
  \<open>curEventMask[data.idx]\<close> from its current one.
\<close>

definition fireBranch ::
  "EventData \<Rightarrow> string \<Rightarrow> branch \<Rightarrow> u8 \<Rightarrow> (u16 \<Rightarrow> u16) \<Rightarrow> string \<Rightarrow>
   u8 list \<times> world \<times> emission list \<Rightarrow> u8 list \<times> world \<times> emission list" where
  "fireBranch d msgID br dr upd redFishMsg st =
     (case st of (eventData, w, ems) \<Rightarrow>
        let ev1 = eventData[5 := push_bit 7 dr OR eventReadType d];
            ev2 = (if br_early br then ev1 else ev1[7 := br_b7 br, 8 := br_b8 br]);
            r = unat (idx d);
            w1 = w\<lparr>curEventMask := (curEventMask w)[r := upd (curEventMask w ! r)]\<rparr>;
            args = [br_comp br, snprintf MAX_MSG_LEN redFishMsg];
            w2 = addSelOem ''OEM RAS error:'' ev2 w1;
            w3 = sd_journal_send msgID args w2
        in (ev2, w3,
            ems @ [\<lparr>em_mask = br_mask br, em_dir = dr, em_sel = ev2,
                     em_msgid = msgID, em_args = args\<rparr>]))"

definition eventBranch ::
  "EventData \<Rightarrow> u16 \<Rightarrow> u16 \<Rightarrow> string \<Rightarrow> branch \<Rightarrow>
   u8 list \<times> world \<times> emission list \<Rightarrow> u8 list \<times> world \<times> emission list" where
  "eventBranch d edata currentMask msgID br st =
     (case st of (eventData, w, ems) \<Rightarrow>
        let st1 = ((if br_early br then eventData[7 := br_b7 br, 8 := br_b8 br] else eventData),
                   w, ems)
        in if edata AND br_mask br \<noteq> 0 \<and> currentMask AND br_mask br = 0 then
             fireBranch d msgID br DIR_ASSERTED (\<lambda>c. c OR br_mask br) ''Asserted.'' st1
           else if edata AND br_mask br = 0 \<and> currentMask AND br_mask br \<noteq> 0 then
             fireBranch d msgID br DIR_DEASSERTED (\<lambda>c. c AND (0xffff - br_mask br))
               ''Deasserted.'' st1
           else st1)"

text \<open>
  The prologue the four handlers share (the snapshot \<open>currentMask\<close>, the payload filled
  with \<open>0xFF\<close> and its fixed bytes, the message id), then the blocks in order. The C
  functions return 1; the model returns what they emitted and the world they leave.
  \<open>data.idx\<close> indexes a C array: the table only holds indices below
  \<open>NUMBER_OF_EVENTS\<close>, and the theorems below assume the index in range.
\<close>

definition runBranches :: "EventData \<Rightarrow> EventFields \<Rightarrow> branch list \<Rightarrow> world \<Rightarrow> emission list \<times> world" where
  "runBranches d eFields brs w =
     (let currentMask = curEventMask w ! unat (idx d);
          eventData = (replicate SEL_OEM_DATA_MAX_SIZE 0xFF)
             [0 := AMPERE_IANA_BYTE_1, 1 := AMPERE_IANA_BYTE_2, 2 := AMPERE_IANA_BYTE_3,
              3 := eventType d, 4 := eventNum d, 6 := 0x1 OR EVENT_DATA_1 OR EVENT_DATA_3];
          msgID = snprintf MAX_MSG_LEN (''OpenBMC.0.1.'' @ redFishMsgID d @ ''.Warning'')
      in case fold (eventBranch d (data eFields) currentMask msgID) brs (eventData, w, []) of
           (ev, w', ems) \<Rightarrow> (ems, w'))"

text \<open>The three kinds of block of the VRD handlers.\<close>

definition socBranch :: "EventData \<Rightarrow> u16 \<Rightarrow> branch" where
  "socBranch d bitMask =
     \<lparr>br_mask = bitMask, br_early = False,
      br_b7 = push_bit 4 SOC_COMPONENT OR ucast (socket d), br_b8 = 0,
      br_comp = snprintf MAX_MSG_LEN
        (''Event '' @ eventName d @ '' at SoC_VRD of Socket '' @ showDec (unat (socket d)))\<rparr>"

definition coreBranch :: "EventData \<Rightarrow> u16 \<Rightarrow> u8 \<Rightarrow> branch" where
  "coreBranch d bitMask vrd =
     \<lparr>br_mask = bitMask, br_early = False,
      br_b7 = push_bit 4 CORE_COMPONENT OR ucast (socket d), br_b8 = vrd,
      br_comp = snprintf MAX_MSG_LEN
        (''Event '' @ eventName d @ '' at CORE_VRD'' @ showDec (unat vrd) @
         '' of Socket '' @ showDec (unat (socket d)))\<rparr>"

definition dimmBranch :: "EventData \<Rightarrow> u16 \<Rightarrow> u8 \<Rightarrow> branch" where
  "dimmBranch d bitMask vrd =
     \<lparr>br_mask = bitMask, br_early = False,
      br_b7 = push_bit 4 DIMM_COMPONENT OR ucast (socket d), br_b8 = vrd,
      br_comp = snprintf MAX_MSG_LEN
        (''Event '' @ eventName d @ '' at DIMM_VRD'' @ showDec (unat vrd) @
         '' of Socket '' @ showDec (unat (socket d)))\<rparr>"

definition vrdHotBranches :: "EventData \<Rightarrow> branch list" where
  "vrdHotBranches d =
     [socBranch d BIT_0,
      coreBranch d BIT_4 VRD_1, coreBranch d BIT_5 VRD_2, coreBranch d BIT_6 VRD_3,
      dimmBranch d BIT_8 VRD_1, dimmBranch d BIT_9 VRD_2, dimmBranch d BIT_10 VRD_3,
      dimmBranch d BIT_11 VRD_4]"

definition logEventVrdHot :: "EventData \<Rightarrow> EventFields \<Rightarrow> world \<Rightarrow> emission list \<times> world" where
  "logEventVrdHot d eFields w = runBranches d eFields (vrdHotBranches d) w"

definition vrdWarnFaultBranches :: "EventData \<Rightarrow> branch list" where
  "vrdWarnFaultBranches d =
     [socBranch d BIT_0,
      coreBranch d BIT_1 VRD_1, coreBranch d BIT_2 VRD_2, coreBranch d BIT_3 VRD_3,
      dimmBranch d BIT_4 VRD_1, dimmBranch d BIT_5 VRD_2, dimmBranch d BIT_6 VRD_3,
      dimmBranch d BIT_7 VRD_4]"

definition logEventVrdWarnFault :: "EventData \<Rightarrow> EventFields \<Rightarrow> world \<Rightarrow> emission list \<times> world" where
  "logEventVrdWarnFault d eFields w = runBranches d eFields (vrdWarnFaultBranches d) w"

text \<open>
  \<open>logEventDIMMHot\<close>: \<open>for (i = 0; i < SMPRO_DATA_REG_SIZE; i++)\<close> with
  \<open>bitMask = pow(2, i)\<close> (exact in a double, and below \<open>2 ^ 16\<close>), \<open>channel = i % 8\<close>,
  \<open>dimmIdx = i / 8\<close>. The 16-bit \<open>bitMask\<close> is stored into the payload's \<open>uint8_t\<close>
  byte 7 or 8, which keeps its low eight bits (\<open>ucast\<close>).
\<close>

definition dimmHotBranch :: "EventData \<Rightarrow> nat \<Rightarrow> branch" where
  "dimmHotBranch d i =
     (let bitMask = (2 ^ i :: u16); channel = i mod 8; dimmIdx = i div 8
      in \<lparr>br_mask = bitMask, br_early = False,
           br_b7 = (if dimmIdx = 0 then ucast bitMask else 0),
           br_b8 = (if dimmIdx = 0 then 0 else ucast bitMask),
           br_comp = snprintf MAX_MSG_LEN
             (''Event '' @ eventName d @ '' at DIMM'' @ showDec dimmIdx @ '' of channel '' @
              showDec channel @ '' of Socket '' @ showDec (unat (socket d)))\<rparr>)"

definition logEventDIMMHot :: "EventData \<Rightarrow> EventFields \<Rightarrow> world \<Rightarrow> emission list \<times> world" where
  "logEventDIMMHot d eFields w =
     runBranches d eFields (map (dimmHotBranch d) [0..<SMPRO_DATA_REG_SIZE]) w"

text \<open>
  \<open>logEventDIMM2xRefresh\<close>: \<open>for (channel = 0; channel < NUMBER_DIMM_CHANNEL; channel++)\<close>;
  \<open>eventData[7] = data.socket\<close> and \<open>eventData[8] = channel\<close> are written before the test.
\<close>

definition dimm2xRefreshBranch :: "EventData \<Rightarrow> nat \<Rightarrow> branch" where
  "dimm2xRefreshBranch d channel =
     \<lparr>br_mask = (2 ^ channel :: u16), br_early = True,
      br_b7 = ucast (socket d), br_b8 = of_nat channel,
      br_comp = snprintf MAX_MSG_LEN
        (''Event '' @ eventName d @ '' at DIMM channel '' @ showDec channel @
         '' of Socket '' @ showDec (unat (socket d)))\<rparr>"

definition logEventDIMM2xRefresh :: "EventData \<Rightarrow> EventFields \<Rightarrow> world \<Rightarrow> emission list \<times> world" where
  "logEventDIMM2xRefresh d eFields w =
     runBranches d eFields (map (dimm2xRefreshBranch d) [0..<NUMBER_DIMM_CHANNEL]) w"

text \<open>The \<open>switch (eventFields.type)\<close> of \<open>parseAndLogEvents\<close>.\<close>

definition dispatchEvent :: "EventData \<Rightarrow> EventFields \<Rightarrow> world \<Rightarrow> emission list \<times> world" where
  "dispatchEvent d eFields w =
     (if type eFields = event_vrd_warn_fault then logEventVrdWarnFault d eFields w
      else if type eFields = event_vrd_hot then logEventVrdHot d eFields w
      else if type eFields = event_dimm_hot then logEventDIMMHot d eFields w
      else if type eFields = event_dimm_2x_refresh then logEventDIMM2xRefresh d eFields w
      else ([], w))"

section \<open>Parsing hexadecimal fields (utils.hpp)\<close>

text \<open>\<open>std::string::c_str()\<close> read as a C string: the characters before the first NUL.\<close>

definition c_str :: "string \<Rightarrow> string" where
  "c_str s = takeWhile (\<lambda>c. c \<noteq> CHR 0x00) s"

definition isspace :: "char \<Rightarrow> bool" where
  "isspace c = (c = CHR '' '' \<or> c = CHR 0x09 \<or> c = CHR 0x0A \<or> c = CHR 0x0B \<or>
                c = CHR 0x0C \<or> c = CHR 0x0D)"

definition hexDigit :: "char \<Rightarrow> nat option" where
  "hexDigit c =
     (let n = (of_char c :: nat)
      in if 48 \<le> n \<and> n \<le> 57 then Some (n - 48)
         else if 97 \<le> n \<and> n \<le> 102 then Some (n - 87)
         else if 65 \<le> n \<and> n \<le> 70 then Some (n - 55)
         else None)"

definition isxdigit :: "char \<Rightarrow> bool" where
  "isxdigit c = (hexDigit c \<noteq> None)"

definition hexValue :: "string \<Rightarrow> nat" where
  "hexValue ds = foldl (\<lambda>a c. a * 16 + (case hexDigit c of Some v \<Rightarrow> v | None \<Rightarrow> 0)) 0 ds"

text \<open>
  \<open>strtoul(nptr, &p, 16)\<close> and \<open>strtoull(nptr, &p, 16)\<close> of the C library, for an
  unsigned type of \<open>bits\<close> bits: the value returned and the text \<open>p\<close> is left pointing
  at. Leading white space, one sign and a \<open>0x\<close> or \<open>0X\<close> prefix are skipped, then the
  longest run of hexadecimal digits is read. With no digit at all nothing is converted
  (\<open>p = nptr\<close>, or \<open>p\<close> at the \<open>x\<close> when only the \<open>0\<close> of a prefix could be read) and the
  value is 0; a value that does not fit is replaced by the largest one; a minus sign
  negates modulo \<open>2 ^ bits\<close>. The functions never fail.
  The width of \<open>unsigned long\<close> is the target's, so it is a parameter of every function
  that calls \<open>strtoul\<close>; \<open>unsigned long long\<close> has 64 bits.
\<close>

definition strtoul16 :: "nat \<Rightarrow> string \<Rightarrow> nat \<times> string" where
  "strtoul16 bits nptr =
     (let s1 = dropWhile isspace nptr;
          negative = (case s1 of [] \<Rightarrow> False | c # _ \<Rightarrow> c = CHR ''-'');
          s2 = (case s1 of [] \<Rightarrow> s1
                | c # r \<Rightarrow> if c = CHR ''-'' \<or> c = CHR ''+'' then r else s1);
          prefixed = (case s2 of
                        c0 # c1 # _ \<Rightarrow> c0 = CHR ''0'' \<and> (c1 = CHR ''x'' \<or> c1 = CHR ''X'')
                      | _ \<Rightarrow> False);
          s3 = (if prefixed then drop 2 s2 else s2);
          digits = takeWhile isxdigit s3;
          v = hexValue digits
      in if digits = [] then (0, if prefixed then drop 1 s2 else nptr)
         else (if 2 ^ bits \<le> v then 2 ^ bits - 1
               else if negative then (2 ^ bits - v) mod 2 ^ bits
               else v,
               dropWhile isxdigit s3))"

text \<open>
  The four parsers: \<open>if (*p != 0) return 0; return n & mask;\<close>. The result type keeps
  the low bits of \<open>n\<close> (\<open>of_nat\<close> into a word), and the mask is written as the source has it.
\<close>

definition parseHexStrToUInt64 :: "string \<Rightarrow> u64" where
  "parseHexStrToUInt64 str =
     (case strtoul16 64 (c_str str) of
        (n, p) \<Rightarrow> if p \<noteq> [] then 0 else of_nat n AND 0xffffffffffffffff)"

definition parseHexStrToUInt32 :: "nat \<Rightarrow> string \<Rightarrow> u32" where
  "parseHexStrToUInt32 ulong_bits str =
     (case strtoul16 ulong_bits (c_str str) of
        (n, p) \<Rightarrow> if p \<noteq> [] then 0 else of_nat n AND 0xffffffff)"

definition parseHexStrToUInt16 :: "nat \<Rightarrow> string \<Rightarrow> u16" where
  "parseHexStrToUInt16 ulong_bits str =
     (case strtoul16 ulong_bits (c_str str) of
        (n, p) \<Rightarrow> if p \<noteq> [] then 0 else of_nat n AND 0xffff)"

definition parseHexStrToUInt8 :: "nat \<Rightarrow> string \<Rightarrow> u8" where
  "parseHexStrToUInt8 ulong_bits str =
     (case strtoul16 ulong_bits (c_str str) of
        (n, p) \<Rightarrow> if p \<noteq> [] then 0 else of_nat n AND 0xff)"

text \<open>
  \<open>boost::split(result, line, boost::is_any_of(" "))\<close> with the default
  \<open>token_compress_off\<close>: every space ends a token, so two spaces in a row give an empty
  token and the result is never empty.
\<close>

fun boost_split :: "string \<Rightarrow> string list" where
  "boost_split [] = [[]]"
| "boost_split (c # cs) =
     (if c = CHR '' '' then [] # boost_split cs
      else (case boost_split cs of [] \<Rightarrow> [[c]] | t # ts \<Rightarrow> (c # t) # ts))"

text \<open>\<open>line.erase(std::remove(line.begin(), line.end(), '\n'), line.end())\<close>, then the split.\<close>

definition tokens :: "string \<Rightarrow> string list" where
  "tokens line = boost_split (filter (\<lambda>c. c \<noteq> CHR 0x0A) line)"

section \<open>Bus errors: the tables, the two sinks, the parser\<close>

definition mkErrorData :: "u16 \<Rightarrow> u8 \<Rightarrow> string \<Rightarrow> u8 \<Rightarrow> u8 \<Rightarrow> string \<Rightarrow> string \<Rightarrow> ErrorData" where
  "mkErrorData so ty la et en na ms =
     \<lparr>ErrorData.socket = so, intErrorType = ty, ErrorData.label = la, ErrorData.errType = et,
      errNum = en, errName = na, ErrorData.redFishMsgID = ms\<rparr>"

definition errorTypeTable :: "ErrorData list" where
  "errorTypeTable = [
    mkErrorData 0 errors_core_ue ''errors_core_ue'' TYPE_CORE UE_CORE_IERR
      ''UE_CPU_IError'' ''CPUError'',
    mkErrorData 0 errors_mem_ue ''errors_mem_ue'' TYPE_MEM UE_MEM_IERR
      ''UE_Memory_IErr'' ''MemoryECCUncorrectable'',
    mkErrorData 0 errors_pcie_ue ''errors_pcie_ue'' TYPE_PCIE UE_PCIE_IERR
      ''UE_PCIE_IErr'' ''PCIeFatalUncorrectableInternal'',
    mkErrorData 0 errors_other_ue ''errors_other_ue'' TYPE_OTHER UE_OTHER_IERR
      ''UE_SoC_IErr'' ''AmpereCritical'',
    mkErrorData 1 errors_core_ue ''errors_core_ue'' TYPE_CORE UE_CORE_IERR
      ''UE_CPU_IError'' ''CPUError'',
    mkErrorData 1 errors_mem_ue ''errors_mem_ue'' TYPE_MEM UE_MEM_IERR
      ''UE_Memory_IErr'' ''MemoryECCUncorrectable'',
    mkErrorData 1 errors_pcie_ue ''errors_pcie_ue'' TYPE_PCIE UE_PCIE_IERR
      ''UE_PCIE_IErr'' ''PCIeFatalUncorrectableInternal'',
    mkErrorData 1 errors_other_ue ''errors_other_ue'' TYPE_OTHER UE_OTHER_IERR
      ''UE_SoC_IErr'' ''AmpereCritical'',
    mkErrorData 0 errors_core_ce ''errors_core_ce'' TYPE_CORE CE_CORE_IERR
      ''CE_CPU_IError'' ''CPUError'',
    mkErrorData 0 errors_mem_ce ''errors_mem_ce'' TYPE_MEM CE_MEM_IERR
      ''CE_Memory_IErr'' ''MemoryECCCorrectable'',
    mkErrorData 0 errors_pcie_ce ''errors_pcie_ce'' TYPE_PCIE CE_PCIE_IERR
      ''CE_PCIE_IErr'' ''PCIeFatalECRCError'',
    mkErrorData 0 errors_other_ce ''errors_other_ce'' TYPE_OTHER CE_OTHER_IERR
      ''CE_SoC_IErr'' ''AmpereCritical'',
    mkErrorData 1 errors_core_ce ''errors_core_ce'' TYPE_CORE CE_CORE_IERR
      ''CE_CPU_IError'' ''CPUError'',
    mkErrorData 1 errors_mem_ce ''errors_mem_ce'' TYPE_MEM CE_MEM_IERR
      ''CE_Memory_IErr'' ''MemoryECCCorrectable'',
    mkErrorData 1 errors_pcie_ce ''errors_pcie_ce'' TYPE_PCIE CE_PCIE_IERR
      ''CE_PCIE_IErr'' ''PCIeFatalECRCError'',
    mkErrorData 1 errors_other_ce ''errors_other_ce'' TYPE_OTHER CE_OTHER_IERR
      ''CE_SoC_IErr'' ''AmpereCritical'',
    mkErrorData 0 errors_smpro ''errors_smpro'' TYPE_SMPM SMPRO_IERR
      ''SMPRO_IErr'' ''AmpereCritical'',
    mkErrorData 0 errors_pmpro ''errors_pmpro'' TYPE_SMPM PMPRO_IERR
      ''PMPRO_IErr'' ''AmpereCritical'',
    mkErrorData 1 errors_smpro ''errors_smpro'' TYPE_SMPM SMPRO_IERR
      ''SMPRO_IErr'' ''AmpereCritical'',
    mkErrorData 1 errors_pmpro ''errors_pmpro'' TYPE_SMPM PMPRO_IERR
      ''PMPRO_IErr'' ''AmpereCritical'']"

text \<open>
  \<open>struct ErrorInfo\<close> and \<open>std::map<u_int16_t, ErrorInfo> mapOfOccur\<close>, as the list of
  its initialisers (the keys are distinct); \<open>map_of\<close> looks a key up.
\<close>

definition mkErrorInfo :: "u8 \<Rightarrow> u8 \<Rightarrow> u8 \<Rightarrow> string \<Rightarrow> string \<Rightarrow> ErrorInfo" where
  "mkErrorInfo t s n na f =
     \<lparr>ei_errType = t, ei_subType = s, numPars = n, ei_errName = na, errMsgFormat = f\<rparr>"

definition mapOfOccur :: "(u16 \<times> ErrorInfo) list" where
  "mapOfOccur = [
    (0x0000, mkErrorInfo 0 0 2 ''CPM Snoop-Logic'' ''Socket%s CPM%s''),
    (0x0001, mkErrorInfo 0 1 2 ''CPM Core 0'' ''Socket%s CPM%s''),
    (0x0002, mkErrorInfo 0 2 2 ''CPM Core 1'' ''Socket%s CPM%s''),
    (0x0101, mkErrorInfo 1 1 2 ''MCU ERR Record 1 (DRAM CE)'' ''Socket%s MCU%s''),
    (0x0102, mkErrorInfo 1 2 2 ''MCU ERR Record 2 (DRAM UE)'' ''Socket%s MCU%s''),
    (0x0103, mkErrorInfo 1 3 2 ''MCU ERR Record 3 (CHI Fault)'' ''Socket%s MCU%s''),
    (0x0104, mkErrorInfo 1 4 2 ''MCU ERR Record 4 (SRAM CE)'' ''Socket%s MCU%s''),
    (0x0105, mkErrorInfo 1 5 2 ''MCU ERR 5 (SRAM UE)'' ''Socket%s MCU%s''),
    (0x0106, mkErrorInfo 1 6 2 ''MCU ERR 6 (DMC recovery)'' ''Socket%s MCU%s''),
    (0x0107, mkErrorInfo 1 7 2 ''MCU Link ERR'' ''Socket%s MCU%s''),
    (0x0200, mkErrorInfo 2 0 2 ''Mesh XP'' ''Socket%s instance:%s''),
    (0x0201, mkErrorInfo 2 1 2 ''Mesh HNI'' ''Socket%s instance:%s''),
    (0x0202, mkErrorInfo 2 2 2 ''Mesh HNF'' ''Socket%s instance:%s''),
    (0x0204, mkErrorInfo 2 4 2 ''Mesh CXG'' ''Socket%s instance:%s''),
    (0x0300, mkErrorInfo 3 0 2 ''2P AER ERR'' ''Socket%s Link%s''),
    (0x0400, mkErrorInfo 4 0 2 ''2P ALI ERR'' ''Socket%s Link%s''),
    (0x0500, mkErrorInfo 5 0 1 ''GIC ERR 0'' ''Socket%s''),
    (0x0501, mkErrorInfo 5 1 1 ''GIC ERR 1'' ''Socket%s''),
    (0x0502, mkErrorInfo 5 2 1 ''GIC ERR 2'' ''Socket%s''),
    (0x0503, mkErrorInfo 5 3 1 ''GIC ERR 3'' ''Socket%s''),
    (0x0504, mkErrorInfo 5 4 1 ''GIC ERR 4'' ''Socket%s''),
    (0x0505, mkErrorInfo 5 5 1 ''GIC ERR 5'' ''Socket%s''),
    (0x0506, mkErrorInfo 5 6 1 ''GIC ERR 6'' ''Socket%s''),
    (0x0507, mkErrorInfo 5 7 1 ''GIC ERR 7'' ''Socket%s''),
    (0x0508, mkErrorInfo 5 8 1 ''GIC ERR 8'' ''Socket%s''),
    (0x0509, mkErrorInfo 5 9 1 ''GIC ERR 9'' ''Socket%s''),
    (0x050a, mkErrorInfo 5 10 1 ''GIC ERR 10'' ''Socket%s''),
    (0x050b, mkErrorInfo 5 11 1 ''GIC ERR 11'' ''Socket%s''),
    (0x050c, mkErrorInfo 5 12 1 ''GIC ERR 12'' ''Socket%s''),
    (0x0600, mkErrorInfo 6 0 2 ''SMMU TBU0'' ''Socket%s Root complex:%s''),
    (0x0601, mkErrorInfo 6 1 2 ''SMMU TBU1'' ''Socket%s Root complex:%s''),
    (0x0602, mkErrorInfo 6 2 2 ''SMMU TBU2'' ''Socket%s Root complex:%s''),
    (0x0603, mkErrorInfo 6 3 2 ''SMMU TBU3'' ''Socket%s Root complex:%s''),
    (0x0604, mkErrorInfo 6 4 2 ''SMMU TBU4'' ''Socket%s Root complex:%s''),
    (0x0605, mkErrorInfo 6 5 2 ''SMMU TBU5'' ''Socket%s Root complex:%s''),
    (0x0606, mkErrorInfo 6 6 2 ''SMMU TBU6'' ''Socket%s Root complex:%s''),
    (0x0607, mkErrorInfo 6 7 2 ''SMMU TBU7'' ''Socket%s Root complex:%s''),
    (0x0608, mkErrorInfo 6 8 2 ''SMMU TBU8'' ''Socket%s Root complex:%s''),
    (0x0609, mkErrorInfo 6 9 2 ''SMMU TBU9'' ''Socket%s Root complex:%s''),
    (0x0664, mkErrorInfo 6 100 2 ''SMMU TCU'' ''Socket%s Root complex:%s''),
    (0x0700, mkErrorInfo 7 0 2 ''PCIe AER Root Port'' ''Socket%s Root complex:%s''),
    (0x0701, mkErrorInfo 7 1 2 ''PCIe AER Device'' ''Socket%s Root complex:%s''),
    (0x0800, mkErrorInfo 8 0 2 ''PCIe HB RCA'' ''Socket%s Root complex:%s''),
    (0x0801, mkErrorInfo 8 1 2 ''PCIe HB RCA'' ''Socket%s Root complex:%s''),
    (0x0808, mkErrorInfo 8 8 2 ''PCIe RASDP Error '' ''Socket%s Root complex:%s''),
    (0x0900, mkErrorInfo 9 0 1 ''OCM ERR 0 (ECC Fault)'' ''Socket%s''),
    (0x0901, mkErrorInfo 9 1 1 ''OCM ERR 1 (ERR Recovery)'' ''Socket%s''),
    (0x0902, mkErrorInfo 9 2 1 ''OCM ERR 2 (Data Poisoned)'' ''Socket%s''),
    (0x0a00, mkErrorInfo 10 0 1 ''SMpro ERR 0 (ECC Fault)'' ''Socket%s''),
    (0x0a01, mkErrorInfo 10 1 1 ''SMpro ERR 1 (ERR Recovery)'' ''Socket%s''),
    (0x0a02, mkErrorInfo 10 2 1 ''SMpro MPA_ERR'' ''Socket%s''),
    (0x0b00, mkErrorInfo 11 0 1 ''PMpro ERR 0 (ECC Fault)'' ''Socket%s''),
    (0x0b01, mkErrorInfo 11 1 1 ''PMpro ERR 1 (ERR Recovery)'' ''Socket%s''),
    (0x0b02, mkErrorInfo 11 2 1 ''PMpro MPA_ERR'' ''Socket%s''),
    (0x0c00, mkErrorInfo 12 0 1 ''ATF firmware EL3'' ''Socket%s''),
    (0x0c01, mkErrorInfo 12 1 1 ''ATF firmware SPM'' ''Socket%s''),
    (0x0c02, mkErrorInfo 12 2 1 ''ATF firmware Secure Partition '' ''Socket%s''),
    (0x0d00, mkErrorInfo 13 0 1 ''SMpro firmware RAS_MSG_ERR'' ''Socket%s''),
    (0x0e00, mkErrorInfo 14 0 1 ''PMpro firmware RAS_MSG_ERR'' ''Socket%s''),
    (0x3f00, mkErrorInfo 63 0 1 ''BERT Default'' ''Socket%s''),
    (0x3f01, mkErrorInfo 63 1 1 ''BERT Watchdog'' ''Socket%s''),
    (0x3f02, mkErrorInfo 63 2 1 ''BERT ATF Fatal'' ''Socket%s''),
    (0x3f03, mkErrorInfo 63 3 1 ''BERT SMpro Fatal'' ''Socket%s''),
    (0x3f04, mkErrorInfo 63 4 1 ''BERT PMpro Fatal'' ''Socket%s''),
    (0xffff, mkErrorInfo 255 255 1 ''Overflow'' ''Socket%s'')]"

definition MCU_ERR_1_TYPE :: u16 where [ras_consts]: "MCU_ERR_1_TYPE = 0x0101"
definition MCU_ERR_2_TYPE :: u16 where [ras_consts]: "MCU_ERR_2_TYPE = 0x0102"

text \<open>A format of the table, with its \<open>%s\<close> replaced by the arguments in order.\<close>

fun format_s :: "string \<Rightarrow> string list \<Rightarrow> string" where
  "format_s [] args = []"
| "format_s [c] args = [c]"
| "format_s (c # c' # cs) args =
     (if c = CHR ''%'' \<and> c' = CHR ''s''
      then (case args of [] \<Rightarrow> format_s cs [] | a # as \<Rightarrow> a @ format_s cs as)
      else c # format_s (c' # cs) args)"

text \<open>
  Of the calls of \<open>sd_journal_send\<close> in the file, the one that sends the extended
  ECC data of a memory error (the last statement of the memory branch of
  \<open>logErrorToRedfish\<close>) ends its argument list without the \<open>NULL\<close> the function
  requires; every other call has it. The library reads on past the last argument for
  the next format string: the behaviour is undefined, and what the program does from
  there on is not known. The model stops at that call with a fault, which keeps what is
  known: the message id and the three values handed to the call, and the world reached
  before it. A function that can reach the call returns \<open>fault + result\<close>.
\<close>

datatype fault = NoSentinel string "nat list" world

text \<open>
  \<open>logErrorToRedfish\<close>. The values \<open>socket\<close>, \<open>rank\<close>, \<open>bank\<close>, \<open>row\<close> and \<open>col\<close>
  are declared \<open>u_int8_t\<close>: each keeps the low eight bits of the expression assigned to
  it (\<open>ucast\<close> to \<open>u8\<close>). The arguments of a journal entry are kept as the list of the
  formatted values. The command that creates the marker is the last statement, after
  the branch of the category has returned.
\<close>

definition logErrorToRedfish :: "ErrorData \<Rightarrow> ErrorFields \<Rightarrow> world \<Rightarrow> fault + world" where
  "logErrorToRedfish d eFields w =
     (let socket = (ucast (drop_bit 14 (instance' eFields AND 0xc000)) :: u8);
          inst_13_0 = instance' eFields AND 0x3fff;
          apiIdx = intErrorType d;
          redFishMsgID = snprintf MAX_MSG_LEN
            (''OpenBMC.0.1.'' @ ErrorData.redFishMsgID d @ ''.Critical'');
          temp = (push_bit 8 (ucast (ErrorFields.errType eFields)) + ucast (subType eFields) :: u16);
          str1 = snprintf 4 (showDec (unat socket));
          str2 = snprintf 6 (showDec (unat inst_13_0));
          redFishMsg = (case map_of mapOfOccur temp of
              None \<Rightarrow> []
            | Some eInfo \<Rightarrow>
                if numPars eInfo = 1 then snprintf MAX_MSG_LEN (format_s (errMsgFormat eInfo) [str1])
                else if numPars eInfo = 2
                  then snprintf MAX_MSG_LEN (format_s (errMsgFormat eInfo) [str1, str2])
                else []);
          redFishComp = (case map_of mapOfOccur temp of
              None \<Rightarrow> []
            | Some eInfo \<Rightarrow> snprintf MAX_MSG_LEN (ei_errName eInfo))
      in if temp = 0xffff then
           Inr (sd_journal_send
             (snprintf MAX_MSG_LEN (''OpenBMC.0.1.'' @ AMPERE_REFISH_REGISTRY @ ''.Critical''))
             [snprintf MAX_MSG_LEN (errName d @ '': '' @ redFishComp), redFishMsg] w)
         else
           let r1 =
             (if apiIdx = errors_core_ue \<or> apiIdx = errors_core_ce then
                Inr (sd_journal_send redFishMsgID
                  [snprintf MAX_MSG_LEN (errName d @ '': '' @ redFishComp @ '' '' @ redFishMsg)] w)
              else if apiIdx = errors_mem_ue \<or> apiIdx = errors_mem_ce then
                (let rank = (ucast (drop_bit 20 (address eFields) AND 0xF) :: u8);
                     bank = (ucast (drop_bit 32 (misc0 eFields) AND 0xf) :: u8);
                     row = (ucast (drop_bit 10 (misc0 eFields) AND 0x3ffff) :: u8);
                     col = (ucast (push_bit 3 (drop_bit 0 (misc0 eFields) AND 0x3ff)) :: u8);
                     dimCh = snprintf MAX_MSG_LEN (showHex (unat (inst_13_0 AND 0x7ff)));
                     wa = (if temp = MCU_ERR_1_TYPE \<or> temp = MCU_ERR_2_TYPE then
                             sd_journal_send redFishMsgID
                               [showDec (unat socket), dimCh,
                                showDec (unat (drop_bit 11 (inst_13_0 AND 0x3800))),
                                showDec (unat rank)] w
                           else
                             sd_journal_send redFishMsgID
                               [showDec (unat socket), dimCh, showDec 0xff, showDec 0xff] w);
                     redFishECCMsgID =
                       (if apiIdx = errors_mem_ue
                        then snprintf MAX_MSG_LEN ''OpenBMC.0.1.MemoryExtendedECCUEData.Critical''
                        else snprintf MAX_MSG_LEN ''OpenBMC.0.1.MemoryExtendedECCCEData.Warning'')
                 in Inl (NoSentinel redFishECCMsgID [unat bank, unat row, unat col] wa))
              else if apiIdx = errors_pcie_ue \<or> apiIdx = errors_pcie_ce then
                Inr (sd_journal_send redFishMsgID
                  [showDec (unat socket), showDec (unat inst_13_0), showDec 0] w)
              else if apiIdx = errors_other_ue \<or> apiIdx = errors_other_ce then
                Inr (sd_journal_send redFishMsgID
                  [snprintf MAX_MSG_LEN (errName d @ '': '' @ redFishComp), redFishMsg] w)
              else Inr w)
           in case r1 of
                Inl f \<Rightarrow> Inl f
              | Inr w1 \<Rightarrow>
                  if apiIdx = errors_core_ue \<or> apiIdx = errors_mem_ue \<or>
                     apiIdx = errors_pcie_ue \<or> apiIdx = errors_other_ue
                  then Inr (std_system createFlagCmd w1)
                  else Inr w1)"

definition logErrorToIpmiSEL :: "ErrorData \<Rightarrow> ErrorFields \<Rightarrow> world \<Rightarrow> world" where
  "logErrorToIpmiSEL d eFields w =
     (let eventData = (replicate SEL_OEM_DATA_MAX_SIZE 0xFF)
            [0 := AMPERE_IANA_BYTE_1, 1 := AMPERE_IANA_BYTE_2, 2 := AMPERE_IANA_BYTE_3,
             3 := ErrorData.errType d, 4 := errNum d,
             5 := ErrorFields.errType eFields, 6 := subType eFields,
             7 := ucast (drop_bit 8 (instance' eFields AND 0xff00)),
             8 := ucast (instance' eFields AND 0xff)]
      in addSelOem ''OEM RAS error:'' eventData w)"

text \<open>
  \<open>parseAndLogErrors\<close>, in two steps: the fields read from the tokens (with the
  overflow case, \<open>errFields.instance = data.socket << 14\<close>, computed in \<open>int\<close> and
  stored into the 16-bit field) and the two sinks. \<open>errFields0\<close> stands for the contents
  of the local \<open>errFields\<close> before any assignment: the four \<open>misc\<close> fields keep it when
  the line has fewer than nine tokens. The result is the value returned and the world,
  or the fault \<open>logErrorToRedfish\<close> stopped at.
\<close>

definition parseErrorFields :: "nat \<Rightarrow> ErrorFields \<Rightarrow> ErrorData \<Rightarrow> string list \<Rightarrow> ErrorFields" where
  "parseErrorFields ulong_bits errFields0 d result =
     (let f1 = errFields0\<lparr>
            ErrorFields.errType := parseHexStrToUInt8 ulong_bits (result ! 0),
            subType := parseHexStrToUInt8 ulong_bits (result ! 1),
            instance' := parseHexStrToUInt16 ulong_bits (result ! 2),
            status := parseHexStrToUInt32 ulong_bits (result ! 3),
            address := parseHexStrToUInt64 (result ! 4)\<rparr>;
          f2 = (if 9 \<le> length result
                then f1\<lparr>misc0 := parseHexStrToUInt64 (result ! 5),
                        misc1 := parseHexStrToUInt64 (result ! 6),
                        misc2 := parseHexStrToUInt64 (result ! 7),
                        misc3 := parseHexStrToUInt64 (result ! 8)\<rparr>
                else f1)
      in if ErrorFields.errType f2 = 0xff \<and> subType f2 = 0xff
         then f2\<lparr>instance' := ucast (push_bit 14 (ucast (ErrorData.socket d) :: u32))\<rparr>
         else f2)"

definition parseAndLogErrors ::
  "nat \<Rightarrow> ErrorFields \<Rightarrow> ErrorData \<Rightarrow> string \<Rightarrow> world \<Rightarrow> fault + int \<times> world" where
  "parseAndLogErrors ulong_bits errFields0 d errLine w =
     (let result = tokens errLine
      in if length result < 5 then Inr (0, w)
         else let errFields = parseErrorFields ulong_bits errFields0 d result
              in case logErrorToRedfish d errFields (logErrorToIpmiSEL d errFields w) of
                   Inl f \<Rightarrow> Inl f
                 | Inr w' \<Rightarrow> Inr (1, w'))"

section \<open>Firmware errors (SMpro and PMpro)\<close>

definition logInternalErrorToIpmiSEL :: "ErrorData \<Rightarrow> InternalFields \<Rightarrow> world \<Rightarrow> world" where
  "logInternalErrorToIpmiSEL d eFields w =
     (let eventData = (replicate SEL_OEM_DATA_MAX_SIZE 0xFF)
            [0 := AMPERE_IANA_BYTE_1, 1 := AMPERE_IANA_BYTE_2, 2 := AMPERE_IANA_BYTE_3,
             3 := ErrorData.errType d, 4 := errNum d,
             5 := push_bit 7 (dir eFields) OR IERR_SENSOR_SPECIFIC,
             6 := push_bit 7 (ucast (ErrorData.socket d AND 0x1)) OR
                  push_bit 4 (if_subType eFields AND 0x7) OR (imageCode eFields AND 0xf),
             7 := location eFields AND 0xff,
             8 := ucast (errCode eFields AND 0xff),
             9 := ucast (drop_bit 8 (errCode eFields AND 0xff00)),
             10 := ucast (if_data eFields AND 0xff),
             11 := ucast (drop_bit 8 (if_data eFields AND 0xff00))]
      in addSelOem ''OEM RAS error:'' eventData w)"

definition logInternalErrorToRedfish ::
  "internalTables \<Rightarrow> ErrorData \<Rightarrow> InternalFields \<Rightarrow> world \<Rightarrow> world" where
  "logInternalErrorToRedfish tabs d eFields w =
     (let sLocation = (if unat (location eFields) < NUM_LOCAL_CODES tabs
                       then snprintf MAX_MSG_LEN (localCodes tabs ! unat (location eFields))
                       else ''Unknown location'');
          sImage = (if unat (imageCode eFields) < NUM_IMAGE_CODES tabs
                    then snprintf MAX_MSG_LEN (imageCodes tabs ! unat (imageCode eFields))
                    else ''Unknown Image'');
          sErrorCode = (if unat (errCode eFields) < NUM_ERROR_CODES tabs
                        then snprintf MAX_MSG_LEN (errorCodes tabs ! unat (errCode eFields))
                        else ''Unknown Error'');
          sDir = (if unat (dir eFields) < NUM_DIRS tabs
                  then snprintf MAX_MSG_LEN (directions tabs ! unat (dir eFields))
                  else ''Unknown Action'');
          redfishComp = snprintf MAX_MSG_LEN
            (''S'' @ showDec (unat (ErrorData.socket d)) @ ''_'' @ errName d @ '': '' @
             sImage @ '' '' @ sDir @ '' '' @ sLocation @ '' with'');
          redfishMsgID =
            (if if_subType eFields = SMPMPRO_WARNING
             then snprintf MAX_MSG_LEN (''OpenBMC.0.1.'' @ ErrorData.redFishMsgID d @ ''.Warning'')
             else snprintf MAX_MSG_LEN (''OpenBMC.0.1.'' @ ErrorData.redFishMsgID d @ ''.Critical''));
          redfishMsg =
            (if if_subType eFields = SMPMPRO_WARNING
             then snprintf MAX_MSG_LEN (''Warning '' @ sErrorCode @ ''.'')
             else if if_subType eFields = SMPMPRO_ERROR
             then snprintf MAX_MSG_LEN (''Error '' @ sErrorCode @ ''.'')
             else snprintf MAX_MSG_LEN
                    (''Error '' @ sErrorCode @ '', data 0x'' @ showHex08 (unat (if_data eFields)) @ ''.''))
      in if intErrorType d = errors_smpro \<or> intErrorType d = errors_pmpro
         then sd_journal_send redfishMsgID [redfishComp, redfishMsg] w
         else w)"

definition parseAndLogInternalErrors ::
  "nat \<Rightarrow> internalTables \<Rightarrow> ErrorData \<Rightarrow> string \<Rightarrow> world \<Rightarrow> int \<times> world" where
  "parseAndLogInternalErrors ulong_bits tabs d errLine w =
     (let result = tokens errLine
      in if length result < 6 then (0, w)
         else let errFields =
                \<lparr>if_errType = (if intErrorType d = errors_smpro then SMPRO_IERR_TYPE
                                else PMPRO_IERR_TYPE),
                 if_subType = parseHexStrToUInt8 ulong_bits (result ! 0),
                 imageCode = parseHexStrToUInt8 ulong_bits (result ! 1),
                 dir = parseHexStrToUInt8 ulong_bits (result ! 2),
                 location = parseHexStrToUInt8 ulong_bits (result ! 3),
                 errCode = parseHexStrToUInt16 ulong_bits (result ! 4),
                 if_data = parseHexStrToUInt32 ulong_bits (result ! 5)\<rparr>
              in (1, logInternalErrorToRedfish tabs d errFields
                       (logInternalErrorToIpmiSEL d errFields w)))"

section \<open>Events: the parser\<close>

definition parseAndLogEvents :: "nat \<Rightarrow> EventData \<Rightarrow> string \<Rightarrow> world \<Rightarrow> int \<times> world" where
  "parseAndLogEvents ulong_bits d eventLine w =
     (let result = tokens eventLine
      in if length result < 2 then (0, w)
         else let eventFields =
                \<lparr>type = parseHexStrToUInt8 ulong_bits (result ! 0),
                 data = parseHexStrToUInt16 ulong_bits (result ! 1)\<rparr>
              in (1, snd (dispatchEvent d eventFields w)))"

section \<open>One file of records\<close>

text \<open>
  \<open>logErrors\<close> reads the file line by line (\<open>getline\<close>) and hands every line to the
  parser of the descriptor's category, whatever the parser returned for the line before;
  a file that cannot be opened gives 0 and no effect. The lines are C strings turned
  into \<open>std::string\<close>, hence \<open>c_str\<close>. A fault in a line ends the model of the loop:
  nothing is known of the lines after it.
\<close>

fun logLines :: "(string \<Rightarrow> world \<Rightarrow> fault + world) \<Rightarrow> string list \<Rightarrow> world \<Rightarrow> fault + world" where
  "logLines f [] w = Inr w"
| "logLines f (line # lines) w =
     (case f line w of Inl e \<Rightarrow> Inl e | Inr w' \<Rightarrow> logLines f lines w')"

definition logErrors ::
  "nat \<Rightarrow> internalTables \<Rightarrow> ErrorFields \<Rightarrow> ErrorData \<Rightarrow> string list option \<Rightarrow> world \<Rightarrow>
   fault + int \<times> world" where
  "logErrors ulong_bits tabs errFields0 d file w =
     (case file of
        None \<Rightarrow> Inr (0, w)
      | Some lines \<Rightarrow>
          (case logLines (\<lambda>line w'.
                   if intErrorType d = errors_smpro \<or> intErrorType d = errors_pmpro
                   then Inr (snd (parseAndLogInternalErrors ulong_bits tabs d (c_str line) w'))
                   else (case parseAndLogErrors ulong_bits errFields0 d (c_str line) w' of
                           Inl e \<Rightarrow> Inl e
                         | Inr (r, w'') \<Rightarrow> Inr w''))
                 lines w of
             Inl e \<Rightarrow> Inl e
           | Inr w' \<Rightarrow> Inr (1, w')))"

definition logEvents :: "nat \<Rightarrow> EventData \<Rightarrow> string list option \<Rightarrow> world \<Rightarrow> int \<times> world" where
  "logEvents ulong_bits d file w =
     (case file of
        None \<Rightarrow> (0, w)
      | Some lines \<Rightarrow>
          (1, fold (\<lambda>line w'. snd (parseAndLogEvents ulong_bits d (c_str line) w')) lines w))"

section \<open>Vocabulary of the properties\<close>

text \<open>
  The definitions of this section are not code of the daemon. They name what the
  theorems speak about: what one block emits and stores as a function of the new mask and
  of the snapshot, the bits a handler looks at, the transitions of one bit in a list of
  emissions, and a row fed a sequence of masks.
\<close>

text \<open>The payload of an emission: its fixed bytes, and bytes 5, 7 and 8.\<close>

definition hdr :: "EventData \<Rightarrow> u8 \<Rightarrow> u8 \<Rightarrow> u8 \<Rightarrow> u8 list" where
  "hdr d b5 b7 b8 =
     [AMPERE_IANA_BYTE_1, AMPERE_IANA_BYTE_2, AMPERE_IANA_BYTE_3, eventType d, eventNum d,
      b5, 0x1 OR EVENT_DATA_1 OR EVENT_DATA_3, b7, b8, 0xFF, 0xFF, 0xFF]"

text \<open>Which branch of a block fires, if any, for the new mask \<open>m\<close> and the snapshot \<open>cm\<close>.\<close>

definition branchDir :: "u16 \<Rightarrow> u16 \<Rightarrow> u16 \<Rightarrow> u8 option" where
  "branchDir m cm bm =
     (if m AND bm \<noteq> 0 \<and> cm AND bm = 0 then Some DIR_ASSERTED
      else if m AND bm = 0 \<and> cm AND bm \<noteq> 0 then Some DIR_DEASSERTED
      else None)"

definition branchEmission :: "EventData \<Rightarrow> string \<Rightarrow> branch \<Rightarrow> u8 \<Rightarrow> emission" where
  "branchEmission d msgID br dr =
     \<lparr>em_mask = br_mask br, em_dir = dr,
      em_sel = hdr d (push_bit 7 dr OR eventReadType d) (br_b7 br) (br_b8 br),
      em_msgid = msgID,
      em_args = [br_comp br, if dr = DIR_ASSERTED then ''Asserted.'' else ''Deasserted.'']\<rparr>"

definition emissionsOf :: "EventData \<Rightarrow> u16 \<Rightarrow> u16 \<Rightarrow> string \<Rightarrow> branch list \<Rightarrow> emission list" where
  "emissionsOf d m cm msgID brs =
     concat (map (\<lambda>br. case branchDir m cm (br_mask br) of
                          None \<Rightarrow> [] | Some dr \<Rightarrow> [branchEmission d msgID br dr]) brs)"

text \<open>The stored mask of the row after one block, and after a list of blocks.\<close>

definition maskStep :: "u16 \<Rightarrow> u16 \<Rightarrow> u16 \<Rightarrow> u16 \<Rightarrow> u16" where
  "maskStep m cm bm c =
     (case branchDir m cm bm of
        None \<Rightarrow> c
      | Some dr \<Rightarrow> if dr = DIR_ASSERTED then c OR bm else c AND (0xffff - bm))"

definition maskAfter :: "u16 \<Rightarrow> u16 \<Rightarrow> u16 list \<Rightarrow> u16 \<Rightarrow> u16" where
  "maskAfter m cm bms c = fold (maskStep m cm) bms c"

text \<open>The two calls an emission stands for, in the order the handlers make them.\<close>

definition effectsOf :: "emission \<Rightarrow> effect list" where
  "effectsOf e = [AddSelOem ''OEM RAS error:'' (em_sel e) IPMI_SEL_OEM_RECORD_TYPE,
                  JournalSend (em_msgid e) (em_args e)]"

text \<open>
  The bits each handler looks at, by the value of \<open>eventFields.type\<close> that selects it,
  and the blocks of that handler.
\<close>

definition scannedBits :: "u8 \<Rightarrow> nat list" where
  "scannedBits t =
     (if t = event_vrd_warn_fault then [0, 1, 2, 3, 4, 5, 6, 7]
      else if t = event_vrd_hot then [0, 4, 5, 6, 8, 9, 10, 11]
      else if t = event_dimm_hot then [0..<16]
      else if t = event_dimm_2x_refresh then [0..<8]
      else [])"

definition handlerBranches :: "u8 \<Rightarrow> EventData \<Rightarrow> branch list" where
  "handlerBranches t d =
     (if t = event_vrd_warn_fault then vrdWarnFaultBranches d
      else if t = event_vrd_hot then vrdHotBranches d
      else if t = event_dimm_hot then map (dimmHotBranch d) [0..<SMPRO_DATA_REG_SIZE]
      else if t = event_dimm_2x_refresh then map (dimm2xRefreshBranch d) [0..<NUMBER_DIMM_CHANNEL]
      else [])"

definition vrdHotScanMask :: u16 where
  "vrdHotScanMask = BIT_0 OR BIT_4 OR BIT_5 OR BIT_6 OR BIT_8 OR BIT_9 OR BIT_10 OR BIT_11"

text \<open>
  The transitions of bit \<open>i\<close> in a list of emissions, in order: \<open>True\<close> for an
  emission of the "Asserted." branch, \<open>False\<close> for the "Deasserted." branch; and
  the number of the former minus the number of the latter.
\<close>

definition transitionsOf :: "nat \<Rightarrow> emission list \<Rightarrow> bool list" where
  "transitionsOf i ems = map (\<lambda>e. em_dir e = DIR_ASSERTED) (filter (\<lambda>e. em_mask e = 2 ^ i) ems)"

definition netTransitions :: "nat \<Rightarrow> emission list \<Rightarrow> int" where
  "netTransitions i ems =
     int (length (filter (\<lambda>a. a) (transitionsOf i ems))) -
     int (length (filter (\<lambda>a. \<not> a) (transitionsOf i ems)))"

text \<open>
  A row polled several times: the handler selected by \<open>t\<close> is called for the row of
  \<open>d\<close> with each mask in turn, and the emissions are collected in order.
\<close>

fun feedMasks :: "EventData \<Rightarrow> u8 \<Rightarrow> u16 list \<Rightarrow> world \<Rightarrow> emission list \<times> world" where
  "feedMasks d t [] w = ([], w)"
| "feedMasks d t (m # ms) w =
     (case dispatchEvent d \<lparr>type = t, data = m\<rparr> w of
        (ems, w1) \<Rightarrow> (case feedMasks d t ms w1 of (ems', w2) \<Rightarrow> (ems @ ems', w2)))"

text \<open>
  The changes of value along a list of booleans that starts from \<open>b\<close>, and lists in which
  no two neighbours are equal.
\<close>

fun edges :: "bool \<Rightarrow> bool list \<Rightarrow> bool list" where
  "edges b [] = []"
| "edges b (x # xs) = (if x \<noteq> b then [x] else []) @ edges x xs"

fun alternating :: "bool list \<Rightarrow> bool" where
  "alternating (x # y # zs) = (x \<noteq> y \<and> alternating (y # zs))"
| "alternating _ = True"

section \<open>One block, a list of blocks, one handler\<close>

lemma hdr_upd:
  "(hdr d x y z)[5 := a] = hdr d a y z"
  "(hdr d x y z)[7 := b, 8 := c] = hdr d x b c"
  by (simp_all add: hdr_def)

lemma eventBranch_step:
  "\<exists>x y z. eventBranch d m cm msgID br (hdr d x0 y0 z0, w, ems) =
     (hdr d x y z,
      w\<lparr>curEventMask := (curEventMask w)[unat (idx d) := maskStep m cm (br_mask br) (curEventMask w ! unat (idx d))],
        trace := trace w @ concat (map effectsOf (emissionsOf d m cm msgID [br]))\<rparr>,
      ems @ emissionsOf d m cm msgID [br])"
  by (auto simp: eventBranch_def fireBranch_def Let_def hdr_upd maskStep_def branchDir_def
      emissionsOf_def branchEmission_def effectsOf_def addSelOem_def sd_journal_send_def
      snprintf_def MAX_MSG_LEN_def DIR_ASSERTED_def DIR_DEASSERTED_def)

lemma emissionsOf_Cons:
  "emissionsOf d m cm msgID (br # brs) = emissionsOf d m cm msgID [br] @ emissionsOf d m cm msgID brs"
  by (simp add: emissionsOf_def)

lemma emissionsOf_Nil [simp]: "emissionsOf d m cm msgID [] = []"
  by (simp add: emissionsOf_def)

lemma fold_eventBranch:
  "\<exists>x y z. fold (eventBranch d m cm msgID) brs (hdr d x0 y0 z0, w, ems) =
     (hdr d x y z,
      w\<lparr>curEventMask := (curEventMask w)[unat (idx d) :=
           maskAfter m cm (map br_mask brs) (curEventMask w ! unat (idx d))],
        trace := trace w @ concat (map effectsOf (emissionsOf d m cm msgID brs))\<rparr>,
      ems @ emissionsOf d m cm msgID brs)"
proof (induction brs arbitrary: x0 y0 z0 w ems)
  case Nil
  show ?case by (auto simp: maskAfter_def)
next
  case (Cons br brs)
  obtain x y z where step:
    "eventBranch d m cm msgID br (hdr d x0 y0 z0, w, ems) =
     (hdr d x y z,
      w\<lparr>curEventMask := (curEventMask w)[unat (idx d) :=
           maskStep m cm (br_mask br) (curEventMask w ! unat (idx d))],
        trace := trace w @ concat (map effectsOf (emissionsOf d m cm msgID [br]))\<rparr>,
      ems @ emissionsOf d m cm msgID [br])"
    using eventBranch_step by blast
  let ?w1 = "w\<lparr>curEventMask := (curEventMask w)[unat (idx d) :=
           maskStep m cm (br_mask br) (curEventMask w ! unat (idx d))],
        trace := trace w @ concat (map effectsOf (emissionsOf d m cm msgID [br]))\<rparr>"
  obtain x' y' z' where rest:
    "fold (eventBranch d m cm msgID) brs (hdr d x y z, ?w1, ems @ emissionsOf d m cm msgID [br]) =
     (hdr d x' y' z',
      ?w1\<lparr>curEventMask := (curEventMask ?w1)[unat (idx d) :=
           maskAfter m cm (map br_mask brs) (curEventMask ?w1 ! unat (idx d))],
        trace := trace ?w1 @ concat (map effectsOf (emissionsOf d m cm msgID brs))\<rparr>,
      (ems @ emissionsOf d m cm msgID [br]) @ emissionsOf d m cm msgID brs)"
    using Cons.IH by blast
  show ?case
  proof (cases "unat (idx d) < length (curEventMask w)")
    case True
    then show ?thesis
      using step rest
      by (auto simp: maskAfter_def emissionsOf_Cons[of d m cm msgID br brs])
  next
    case False
    then have "\<And>v. (curEventMask w)[unat (idx d) := v] = curEventMask w"
      by (simp add: list_update_beyond)
    then show ?thesis
      using step rest
      by (auto simp: maskAfter_def emissionsOf_Cons[of d m cm msgID br brs])
  qed
qed

text \<open>
  What a handler does, without the loop: the emissions are those of the blocks that
  fire for the snapshot, the row's mask is folded through the blocks, and the trace grows by
  the two calls of every emission.
\<close>

lemma runBranches_eq:
  "runBranches d eFields brs w =
     (let cm = curEventMask w ! unat (idx d);
          msgID = snprintf MAX_MSG_LEN (''OpenBMC.0.1.'' @ redFishMsgID d @ ''.Warning'');
          ems = emissionsOf d (data eFields) cm msgID brs
      in (ems,
          w\<lparr>curEventMask := (curEventMask w)[unat (idx d) :=
                 maskAfter (data eFields) cm (map br_mask brs) cm],
            trace := trace w @ concat (map effectsOf ems)\<rparr>))"
proof -
  let ?cm = "curEventMask w ! unat (idx d)"
  let ?msgID = "snprintf MAX_MSG_LEN (''OpenBMC.0.1.'' @ redFishMsgID d @ ''.Warning'')"
  have init: "(replicate SEL_OEM_DATA_MAX_SIZE 0xFF)
             [0 := AMPERE_IANA_BYTE_1, 1 := AMPERE_IANA_BYTE_2, 2 := AMPERE_IANA_BYTE_3,
              3 := eventType d, 4 := eventNum d, 6 := 0x1 OR EVENT_DATA_1 OR EVENT_DATA_3]
        = hdr d 0xFF 0xFF 0xFF"
    by (simp add: hdr_def SEL_OEM_DATA_MAX_SIZE_def numeral_eq_Suc)
  obtain x y z where
    "fold (eventBranch d (data eFields) ?cm ?msgID) brs (hdr d 0xFF 0xFF 0xFF, w, []) =
     (hdr d x y z,
      w\<lparr>curEventMask := (curEventMask w)[unat (idx d) :=
           maskAfter (data eFields) ?cm (map br_mask brs) ?cm],
        trace := trace w @ concat (map effectsOf (emissionsOf d (data eFields) ?cm ?msgID brs))\<rparr>,
      [] @ emissionsOf d (data eFields) ?cm ?msgID brs)"
    using fold_eventBranch by blast
  then show ?thesis
    unfolding runBranches_def Let_def init by simp
qed

lemma runBranches_Nil: "runBranches d eFields [] w = ([], w)"
  by (simp add: runBranches_eq maskAfter_def)

lemma dispatchEvent_eq:
  "dispatchEvent d eFields w = runBranches d eFields (handlerBranches (type eFields) d) w"
  by (simp add: dispatchEvent_def handlerBranches_def logEventVrdWarnFault_def logEventVrdHot_def
      logEventDIMMHot_def logEventDIMM2xRefresh_def runBranches_Nil ras_consts)

lemma and_pow2_eq0_iff: "((w :: u16) AND 2 ^ i = 0) \<longleftrightarrow> \<not> bit w i"
  by (simp add: and_exp_eq_0_iff_not_bit)

lemma branchDir_pow2:
  "branchDir m cm (2 ^ i) =
     (if bit m i \<and> \<not> bit cm i then Some DIR_ASSERTED
      else if \<not> bit m i \<and> bit cm i then Some DIR_DEASSERTED else None)"
  by (simp add: branchDir_def and_pow2_eq0_iff)

lemma ffff_minus: "(0xffff :: u16) - x = NOT x"
  by (simp add: not_eq_complement)

lemma bit_maskStep:
  assumes "i < 16"
  shows "bit (maskStep m cm (2 ^ i) c) j =
     (if j = i \<and> bit m i \<noteq> bit cm i then bit m i else bit c j)"
  using assms
  by (auto simp: maskStep_def branchDir_pow2 ffff_minus bit_or_iff bit_and_iff bit_not_iff
      bit_exp_iff DIR_ASSERTED_def DIR_DEASSERTED_def dest: bit_imp_le_length)

lemma bit_maskAfter:
  assumes "distinct is" "\<forall>i\<in>set is. i < 16" "\<forall>i\<in>set is. bit c i = bit cm i"
  shows "bit (maskAfter m cm (map (\<lambda>i. 2 ^ i) is) c) j =
     (if j \<in> set is then bit m j else bit c j)"
  using assms
proof (induction "is" arbitrary: c)
  case Nil
  then show ?case by (simp add: maskAfter_def)
next
  case (Cons i "is")
  let ?c' = "maskStep m cm (2 ^ i) c"
  have i16: "i < 16" and notin: "i \<notin> set is" using Cons.prems by auto
  have c': "\<And>k. bit ?c' k = (if k = i \<and> bit m i \<noteq> bit cm i then bit m i else bit c k)"
    using bit_maskStep[OF i16] by blast
  have "\<forall>k\<in>set is. bit ?c' k = bit cm k"
    using Cons.prems notin by (auto simp: c')
  then have IH: "bit (maskAfter m cm (map (\<lambda>i. 2 ^ i) is) ?c') j =
     (if j \<in> set is then bit m j else bit ?c' j)"
    using Cons.IH[of ?c'] Cons.prems by auto
  have unfold: "maskAfter m cm (map (\<lambda>i. 2 ^ i) (i # is)) c =
        maskAfter m cm (map (\<lambda>i. 2 ^ i) is) ?c'"
    by (simp add: maskAfter_def)
  show ?case
    unfolding unfold IH using Cons.prems notin by (auto simp: c')
qed

lemma handlerBranches_masks:
  "map br_mask (handlerBranches t d) = map (\<lambda>i. 2 ^ i) (scannedBits t)"
  by (simp add: handlerBranches_def scannedBits_def vrdWarnFaultBranches_def vrdHotBranches_def
      socBranch_def coreBranch_def dimmBranch_def dimmHotBranch_def dimm2xRefreshBranch_def
      ras_consts o_def Let_def)

lemma scannedBits_distinct: "distinct (scannedBits t)"
  by (simp add: scannedBits_def)

lemma scannedBits_lt: "i \<in> set (scannedBits t) \<Longrightarrow> i < 16"
  by (auto simp: scannedBits_def split: if_splits)

lemma pow2_u16_inj:
  assumes "i < 16" "j < 16"
  shows "((2 ^ i :: u16) = 2 ^ j) = (i = j)"
proof
  assume a: "(2 ^ i :: u16) = 2 ^ j"
  have "bit (2 ^ j :: u16) i" unfolding a[symmetric] using assms by (simp add: bit_exp_iff)
  then show "i = j" by (simp add: bit_exp_iff)
qed simp

lemma transitionsOf_Nil [simp]: "transitionsOf i [] = []"
  by (simp add: transitionsOf_def)

lemma transitionsOf_append [simp]:
  "transitionsOf i (xs @ ys) = transitionsOf i xs @ transitionsOf i ys"
  by (simp add: transitionsOf_def)

lemma transitionsOf_single:
  assumes "i < 16" "k < 16" "br_mask br = 2 ^ k"
  shows "transitionsOf i (emissionsOf d m cm msgID [br]) =
     (if i = k \<and> bit m i \<noteq> bit cm i then [bit m i] else [])"
proof (cases "i = k")
  case True
  then show ?thesis
    using assms(3)
    by (simp add: transitionsOf_def emissionsOf_def branchDir_pow2 branchEmission_def
        DIR_ASSERTED_def DIR_DEASSERTED_def)
next
  case False
  then have ne: "(2 ^ k :: u16) \<noteq> 2 ^ i"
    using pow2_u16_inj[OF assms(2) assms(1)] by simp
  show ?thesis
    using False ne assms(3)
    by (simp add: transitionsOf_def emissionsOf_def branchEmission_def split: option.split)
qed

lemma transitionsOf_emissionsOf:
  assumes "distinct is" "\<forall>k\<in>set is. k < 16" "i < 16" "map br_mask brs = map (\<lambda>k. 2 ^ k) is"
  shows "transitionsOf i (emissionsOf d m cm msgID brs) =
     (if i \<in> set is \<and> bit m i \<noteq> bit cm i then [bit m i] else [])"
  using assms
proof (induction brs arbitrary: "is")
  case Nil
  then show ?case by simp
next
  case (Cons br brs)
  then obtain k ks where ks: "is = k # ks" "br_mask br = 2 ^ k" "map br_mask brs = map (\<lambda>k. 2 ^ k) ks"
    by (cases "is") auto
  have k16: "k < 16" and kn: "k \<notin> set ks" and dks: "distinct ks" and ks16: "\<forall>k\<in>set ks. k < 16"
    using Cons.prems ks by auto
  have rest: "transitionsOf i (emissionsOf d m cm msgID brs) =
     (if i \<in> set ks \<and> bit m i \<noteq> bit cm i then [bit m i] else [])"
    using Cons.IH[OF dks ks16 Cons.prems(3) ks(3)] .
  have one: "transitionsOf i (emissionsOf d m cm msgID [br]) =
     (if i = k \<and> bit m i \<noteq> bit cm i then [bit m i] else [])"
    using transitionsOf_single[OF Cons.prems(3) k16 ks(2)] .
  show ?case
    unfolding emissionsOf_Cons[of d m cm msgID br brs] transitionsOf_append one rest ks(1)
    using kn by auto
qed

lemma filter_emissionsOf:
  "filter (\<lambda>e. em_mask e = x) (emissionsOf d m cm msgID brs) =
   emissionsOf d m cm msgID (filter (\<lambda>br. br_mask br = x) brs)"
  by (induction brs) (auto simp: emissionsOf_def branchEmission_def split: option.split)

lemma set_emissionsOf:
  "e \<in> set (emissionsOf d m cm msgID brs) \<Longrightarrow>
   \<exists>br dr. br \<in> set brs \<and> branchDir m cm (br_mask br) = Some dr \<and> e = branchEmission d msgID br dr"
  by (auto simp: emissionsOf_def split: option.splits) metis

lemma quiet_branches:
  assumes "\<forall>bm\<in>set (map br_mask brs). branchDir m cm bm = None"
  shows "emissionsOf d m cm msgID brs = []" "maskAfter m cm (map br_mask brs) c = c"
  using assms
  by (induction brs arbitrary: c) (auto simp: emissionsOf_def maskAfter_def maskStep_def)

lemma same_on_masks:
  assumes "\<forall>bm\<in>set (map br_mask brs). m AND bm = m' AND bm \<and> cm AND bm = cm' AND bm"
  shows "emissionsOf d m cm msgID brs = emissionsOf d m' cm' msgID brs"
    "maskAfter m cm (map br_mask brs) c = maskAfter m' cm' (map br_mask brs) c"
  using assms
  by (induction brs arbitrary: c) (auto simp: emissionsOf_def maskAfter_def maskStep_def branchDir_def)

lemma table_idx: "d \<in> set eventTypeTable \<Longrightarrow> unat (idx d) < NUMBER_OF_EVENTS"
  by (auto simp: eventTypeTable_def NUMBER_OF_EVENTS_def)

text \<open>One call of the handler selected by \<open>t\<close>, for the row of \<open>d\<close>.\<close>

lemma dispatchEvent_transitions:
  assumes "i < 16"
  shows "transitionsOf i (fst (dispatchEvent d \<lparr>type = t, data = m\<rparr> w)) =
     (if i \<in> set (scannedBits t) \<and> bit m i \<noteq> bit (curEventMask w ! unat (idx d)) i
      then [bit m i] else [])"
  using transitionsOf_emissionsOf[OF scannedBits_distinct _ assms handlerBranches_masks, of t]
    scannedBits_lt
  by (simp add: dispatchEvent_eq runBranches_eq Let_def)

lemma dispatchEvent_mask:
  assumes "unat (idx d) < length (curEventMask w)"
  shows "bit (curEventMask (snd (dispatchEvent d \<lparr>type = t, data = m\<rparr> w)) ! unat (idx d)) j =
     (if j \<in> set (scannedBits t) then bit m j else bit (curEventMask w ! unat (idx d)) j)"
  using assms bit_maskAfter[OF scannedBits_distinct, of t "curEventMask w ! unat (idx d)"
      "curEventMask w ! unat (idx d)" m j] scannedBits_lt
  by (simp add: dispatchEvent_eq runBranches_eq Let_def handlerBranches_masks)

lemma dispatchEvent_length:
  "length (curEventMask (snd (dispatchEvent d eFields w))) = length (curEventMask w)"
  by (simp add: dispatchEvent_eq runBranches_eq Let_def)

lemma dispatchEvent_other_rows:
  "r \<noteq> unat (idx d) \<Longrightarrow>
   curEventMask (snd (dispatchEvent d eFields w)) ! r = curEventMask w ! r"
  by (simp add: dispatchEvent_eq runBranches_eq Let_def)

lemma runBranches_twice:
  assumes r: "unat (idx d) < length (curEventMask w)"
    and masks: "map br_mask brs = map (\<lambda>i. 2 ^ i) is"
    and dist: "distinct is" and lt: "\<forall>i\<in>set is. i < 16"
  shows "runBranches d eFields brs (snd (runBranches d eFields brs w)) =
         ([], snd (runBranches d eFields brs w))"
proof -
  let ?r = "unat (idx d)"
  let ?cm = "curEventMask w ! ?r"
  let ?m = "data eFields"
  let ?c1 = "maskAfter ?m ?cm (map br_mask brs) ?cm"
  let ?w1 = "snd (runBranches d eFields brs w)"
  have cm1: "curEventMask ?w1 ! ?r = ?c1"
    using r by (simp add: runBranches_eq Let_def)
  have bits: "\<And>j. bit ?c1 j = (if j \<in> set is then bit ?m j else bit ?cm j)"
    unfolding masks using bit_maskAfter[OF dist lt, of ?cm ?cm ?m] by simp
  have img: "set (map br_mask brs) = (\<lambda>i. 2 ^ i) ` set is"
    by (simp add: masks)
  have quiet: "\<forall>bm\<in>set (map br_mask brs). branchDir ?m ?c1 bm = None"
    unfolding img by (auto simp: branchDir_pow2 bits)
  have upd: "(curEventMask ?w1)[?r := ?c1] = curEventMask ?w1"
    using cm1 list_update_id[of "curEventMask ?w1" ?r] by simp
  show ?thesis
    using quiet_branches[OF quiet]
    by (simp add: runBranches_eq[of d eFields brs ?w1] Let_def cm1 upd)
qed

section \<open>The same mask twice\<close>

text \<open>
  Claim C1. For a row of the event table and any mask, a handler called a second time
  with the same mask, with no other call for the row in between, emits nothing and leaves
  the world as the first call left it: no SEL record, no journal entry, and
  \<open>curEventMask\<close> unchanged. This holds for each of the four handlers and for the
  \<open>switch\<close> that selects them.
\<close>

theorem same_mask_twice_emits_nothing:
  assumes "d \<in> set eventTypeTable" "length (curEventMask w) = NUMBER_OF_EVENTS"
  shows "logEventVrdWarnFault d eFields (snd (logEventVrdWarnFault d eFields w)) =
           ([], snd (logEventVrdWarnFault d eFields w)) \<and>
         logEventVrdHot d eFields (snd (logEventVrdHot d eFields w)) =
           ([], snd (logEventVrdHot d eFields w)) \<and>
         logEventDIMMHot d eFields (snd (logEventDIMMHot d eFields w)) =
           ([], snd (logEventDIMMHot d eFields w)) \<and>
         logEventDIMM2xRefresh d eFields (snd (logEventDIMM2xRefresh d eFields w)) =
           ([], snd (logEventDIMM2xRefresh d eFields w)) \<and>
         dispatchEvent d eFields (snd (dispatchEvent d eFields w)) =
           ([], snd (dispatchEvent d eFields w))"
proof -
  have r: "unat (idx d) < length (curEventMask w)"
    using assms table_idx by simp
  have twice: "\<And>t. runBranches d eFields (handlerBranches t d)
                  (snd (runBranches d eFields (handlerBranches t d) w)) =
               ([], snd (runBranches d eFields (handlerBranches t d) w))"
    using runBranches_twice[OF r handlerBranches_masks scannedBits_distinct] scannedBits_lt
    by blast
  have a: "logEventVrdWarnFault d eFields = runBranches d eFields (handlerBranches event_vrd_warn_fault d)"
    by (rule ext) (simp add: logEventVrdWarnFault_def handlerBranches_def)
  have b: "logEventVrdHot d eFields = runBranches d eFields (handlerBranches event_vrd_hot d)"
    by (rule ext) (simp add: logEventVrdHot_def handlerBranches_def ras_consts)
  have c: "logEventDIMMHot d eFields = runBranches d eFields (handlerBranches event_dimm_hot d)"
    by (rule ext) (simp add: logEventDIMMHot_def handlerBranches_def ras_consts)
  have e: "logEventDIMM2xRefresh d eFields = runBranches d eFields (handlerBranches event_dimm_2x_refresh d)"
    by (rule ext) (simp add: logEventDIMM2xRefresh_def handlerBranches_def ras_consts)
  have f: "dispatchEvent d eFields = runBranches d eFields (handlerBranches (type eFields) d)"
    by (rule ext) (simp add: dispatchEvent_eq)
  show ?thesis
    unfolding a b c e f using twice by simp
qed

theorem same_mask_twice_witness:
  "eventTypeTable ! 2 \<in> set eventTypeTable \<and>
   length (curEventMask initialWorld) = NUMBER_OF_EVENTS \<and>
   length (fst (logEventDIMMHot (eventTypeTable ! 2) \<lparr>type = event_dimm_hot, data = 0x0101\<rparr>
      initialWorld)) = 2 \<and>
   logEventDIMMHot (eventTypeTable ! 2) \<lparr>type = event_dimm_hot, data = 0x0101\<rparr>
     (snd (logEventDIMMHot (eventTypeTable ! 2) \<lparr>type = event_dimm_hot, data = 0x0101\<rparr>
        initialWorld)) =
   ([], snd (logEventDIMMHot (eventTypeTable ! 2) \<lparr>type = event_dimm_hot, data = 0x0101\<rparr>
        initialWorld))"
proof -
  have p1: "eventTypeTable ! 2 \<in> set eventTypeTable"
    by (simp add: eventTypeTable_def)
  have p2: "length (curEventMask initialWorld) = NUMBER_OF_EVENTS"
    by (simp add: initialWorld_def)
  have n: "length (fst (logEventDIMMHot (eventTypeTable ! 2)
      \<lparr>type = event_dimm_hot, data = 0x0101\<rparr> initialWorld)) = 2"
    by code_simp
  show ?thesis
    using same_mask_twice_emits_nothing[OF p1 p2, of "\<lparr>type = event_dimm_hot, data = 0x0101\<rparr>"]
      p1 p2 n
    by simp
qed

section \<open>A row polled several times\<close>

lemma edges_alternating_aux:
  "alternating (edges b xs) \<and> (edges b xs \<noteq> [] \<longrightarrow> hd (edges b xs) = (\<not> b)) \<and>
   (edges b xs \<noteq> [] \<longrightarrow> last (edges b xs) = last (b # xs)) \<and>
   (edges b xs = [] \<longrightarrow> last (b # xs) = b)"
proof (induction xs arbitrary: b)
  case Nil
  show ?case by simp
next
  case (Cons x xs)
  show ?case
  proof (cases "edges x xs")
    case Nil
    then show ?thesis using Cons.IH[of x] by auto
  next
    case (Cons e es)
    then have "e = (\<not> x)" using Cons.IH[of x] by auto
    then show ?thesis using Cons Cons.IH[of x] by auto
  qed
qed

lemma edges_alternating: "alternating (edges b xs)"
  using edges_alternating_aux by blast

lemma edges_count:
  "int (length (filter (\<lambda>x. x) (edges b xs))) - int (length (filter (\<lambda>x. \<not> x) (edges b xs)))
   = of_bool (last (b # xs)) - of_bool b"
proof (induction xs arbitrary: b)
  case Nil
  show ?case by simp
next
  case (Cons x xs)
  have l: "last (b # x # xs) = last (x # xs)" by simp
  show ?case
    unfolding l using Cons.IH[of x]
    by (cases x; cases b; simp del: last.simps)
qed

lemma feedMasks_Cons:
  "fst (feedMasks d t (m # ms) w) =
     fst (dispatchEvent d \<lparr>type = t, data = m\<rparr> w) @
     fst (feedMasks d t ms (snd (dispatchEvent d \<lparr>type = t, data = m\<rparr> w)))"
  "snd (feedMasks d t (m # ms) w) =
     snd (feedMasks d t ms (snd (dispatchEvent d \<lparr>type = t, data = m\<rparr> w)))"
  by (simp_all split: prod.split)

declare feedMasks.simps(2) [simp del]

lemma feedMasks_length:
  "length (curEventMask (snd (feedMasks d t ms w))) = length (curEventMask w)"
proof (induction ms arbitrary: w)
  case Nil
  show ?case by simp
next
  case (Cons m ms)
  show ?case
    using Cons.IH[of "snd (dispatchEvent d \<lparr>type = t, data = m\<rparr> w)"]
    by (simp add: dispatchEvent_length feedMasks_Cons)
qed

lemma feedMasks_scanned:
  assumes "unat (idx d) < length (curEventMask w)" "i \<in> set (scannedBits t)"
  shows "transitionsOf i (fst (feedMasks d t ms w)) =
         edges (bit (curEventMask w ! unat (idx d)) i) (map (\<lambda>m. bit m i) ms)"
  using assms(1)
proof (induction ms arbitrary: w)
  case Nil
  show ?case by simp
next
  case (Cons m ms)
  let ?w1 = "snd (dispatchEvent d \<lparr>type = t, data = m\<rparr> w)"
  have i16: "i < 16" using assms(2) scannedBits_lt by blast
  have r1: "unat (idx d) < length (curEventMask ?w1)"
    using Cons.prems by (simp add: dispatchEvent_length)
  have b1: "bit (curEventMask ?w1 ! unat (idx d)) i = bit m i"
    using dispatchEvent_mask[OF Cons.prems, of t m i] assms(2) by simp
  have one: "transitionsOf i (fst (dispatchEvent d \<lparr>type = t, data = m\<rparr> w)) =
     (if bit m i \<noteq> bit (curEventMask w ! unat (idx d)) i then [bit m i] else [])"
    using dispatchEvent_transitions[OF i16, of d t m w] assms(2) by simp
  show ?case
    using Cons.IH[OF r1] one b1
    by (auto simp: feedMasks_Cons)
qed

lemma feedMasks_unscanned:
  assumes "i < 16" "i \<notin> set (scannedBits t)"
  shows "transitionsOf i (fst (feedMasks d t ms w)) = []"
proof (induction ms arbitrary: w)
  case Nil
  show ?case by simp
next
  case (Cons m ms)
  show ?case
    using Cons.IH[of "snd (dispatchEvent d \<lparr>type = t, data = m\<rparr> w)"]
      dispatchEvent_transitions[OF assms(1), of d t m w] assms(2)
    by (simp add: feedMasks_Cons)
qed

text \<open>
  Claim C2, as the code has it. Let a row of the table be fed the masks \<open>ms\<close> in order,
  starting from any stored mask \<open>c\<close> of the row (0 when the daemon starts). For a bit
  the selected handler looks at (\<open>scannedBits\<close>: 0 to 7 for VRD warn/fault and DIMM 2x
  refresh, 0, 4, 5, 6, 8, 9, 10, 11 for VRD hot, 0 to 15 for DIMM hot), the number of
  asserted minus the number of deasserted transitions emitted for the bit is the bit's
  value in the last mask minus its value in \<open>c\<close>, and the transitions of the bit
  alternate. For any other bit no transition is ever emitted.
\<close>

theorem transitions_track_scanned_bits:
  assumes "d \<in> set eventTypeTable" "length (curEventMask w) = NUMBER_OF_EVENTS" "i < 16"
  shows "(if i \<in> set (scannedBits t)
          then netTransitions i (fst (feedMasks d t ms w)) =
                 of_bool (bit (last (curEventMask w ! unat (idx d) # ms)) i) -
                 of_bool (bit (curEventMask w ! unat (idx d)) i) \<and>
               alternating (transitionsOf i (fst (feedMasks d t ms w)))
          else transitionsOf i (fst (feedMasks d t ms w)) = [])"
proof (cases "i \<in> set (scannedBits t)")
  case True
  have r: "unat (idx d) < length (curEventMask w)"
    using assms table_idx by simp
  let ?c = "curEventMask w ! unat (idx d)"
  have tr: "transitionsOf i (fst (feedMasks d t ms w)) = edges (bit ?c i) (map (\<lambda>m. bit m i) ms)"
    using feedMasks_scanned[OF r True] .
  have l: "last (bit ?c i # map (\<lambda>m. bit m i) ms) = bit (last (?c # ms)) i"
    by (induction ms arbitrary: w) (auto simp: last_map)
  show ?thesis
    using True edges_count[of "bit ?c i" "map (\<lambda>m. bit m i) ms"] edges_alternating
    by (simp add: netTransitions_def tr l del: last.simps)
next
  case False
  then show ?thesis using feedMasks_unscanned[OF assms(3)] by simp
qed

theorem transitions_track_scanned_bits_witness:
  "eventTypeTable ! 4 \<in> set eventTypeTable \<and>
   length (curEventMask initialWorld) = NUMBER_OF_EVENTS \<and>
   (4 :: nat) < 16 \<and> 4 \<in> set (scannedBits event_vrd_hot) \<and>
   (2 :: nat) < 16 \<and> 2 \<notin> set (scannedBits event_vrd_hot) \<and>
   netTransitions 4 (fst (feedMasks (eventTypeTable ! 4) event_vrd_hot [0x10, 0x00, 0x12]
      initialWorld)) = 1 \<and>
   alternating (transitionsOf 4 (fst (feedMasks (eventTypeTable ! 4) event_vrd_hot
      [0x10, 0x00, 0x12] initialWorld))) \<and>
   transitionsOf 2 (fst (feedMasks (eventTypeTable ! 4) event_vrd_hot [0x10, 0x00, 0x12]
      initialWorld)) = []"
proof -
  have p1: "eventTypeTable ! 4 \<in> set eventTypeTable"
    by (simp add: eventTypeTable_def)
  have p2: "length (curEventMask initialWorld) = NUMBER_OF_EVENTS"
    by (simp add: initialWorld_def)
  have s4: "4 \<in> set (scannedBits event_vrd_hot)" and s1: "2 \<notin> set (scannedBits event_vrd_hot)"
    by (simp_all add: scannedBits_def ras_consts)
  have c: "curEventMask initialWorld ! unat (idx (eventTypeTable ! 4)) = 0"
    by (simp add: initialWorld_def eventTypeTable_def NUMBER_OF_EVENTS_def)
  have b: "bit (0x12 :: u16) 4" "\<not> bit (0 :: u16) 4"
    by simp_all
  show ?thesis
    using transitions_track_scanned_bits[OF p1 p2, of 4 event_vrd_hot "[0x10, 0x00, 0x12]"]
      transitions_track_scanned_bits[OF p1 p2, of 2 event_vrd_hot "[0x10, 0x00, 0x12]"]
      p1 p2 s4 s1 b
    by (simp add: c)
qed

text \<open>
  The claim is stated for every bit index. It fails for a bit the handler does not look
  at: the VRD-hot handler of row 1, fed the masks 0 and then 2 from the initial state,
  emits nothing for bit 1, whose value changed from 0 to 1.
\<close>

theorem net_change_counterexample:
  "netTransitions 1 (fst (feedMasks (eventTypeTable ! 1) event_vrd_hot [0, 2] initialWorld))
   \<noteq> of_bool (bit (2 :: u16) 1) - of_bool (bit (0 :: u16) 1)"
proof -
  have "1 \<notin> set (scannedBits event_vrd_hot)"
    by (simp add: scannedBits_def ras_consts)
  then have "transitionsOf 1 (fst (feedMasks (eventTypeTable ! 1) event_vrd_hot [0, 2] initialWorld)) = []"
    using feedMasks_unscanned[of 1 event_vrd_hot] by simp
  then show ?thesis by (simp add: netTransitions_def)
qed

section \<open>Payload bytes of the VRD-hot handler\<close>

text \<open>
  Claim C5. In the VRD-hot handler, for a descriptor of socket 0, a mask with bit 4 set
  while the stored bit 4 is clear gives exactly one emission for \<open>BIT_4\<close>: asserted, with
  payload byte 7 equal to \<open>0x10\<close> and byte 8 equal to \<open>0x01\<close>. For a descriptor of
  socket 1 and bit 8 the bytes are \<open>0x21\<close> and \<open>0x01\<close>. The payload of every emission is
  what \<open>addSelOem\<close> is called with.
\<close>

theorem vrdHot_rail_bytes:
  assumes "unat (idx d) < length (curEventMask w)"
  shows "(socket d = 0 \<and> bit (data eFields) 4 \<and> \<not> bit (curEventMask w ! unat (idx d)) 4 \<longrightarrow>
            map (\<lambda>e. (em_dir e, em_sel e ! 7, em_sel e ! 8))
              (filter (\<lambda>e. em_mask e = BIT_4) (fst (logEventVrdHot d eFields w)))
            = [(DIR_ASSERTED, 0x10, 0x01)]) \<and>
         (socket d = 1 \<and> bit (data eFields) 8 \<and> \<not> bit (curEventMask w ! unat (idx d)) 8 \<longrightarrow>
            map (\<lambda>e. (em_dir e, em_sel e ! 7, em_sel e ! 8))
              (filter (\<lambda>e. em_mask e = BIT_8) (fst (logEventVrdHot d eFields w)))
            = [(DIR_ASSERTED, 0x21, 0x01)]) \<and>
         trace (snd (logEventVrdHot d eFields w)) =
           trace w @ concat (map (\<lambda>e. [AddSelOem ''OEM RAS error:'' (em_sel e) 0xC0,
                                       JournalSend (em_msgid e) (em_args e)])
                              (fst (logEventVrdHot d eFields w)))"
proof -
  have d4: "\<And>m cm. branchDir m cm BIT_4 =
     (if bit m 4 \<and> \<not> bit cm 4 then Some DIR_ASSERTED
      else if \<not> bit m 4 \<and> bit cm 4 then Some DIR_DEASSERTED else None)"
    using branchDir_pow2[of _ _ 4] by (simp add: BIT_4_def)
  have d8: "\<And>m cm. branchDir m cm BIT_8 =
     (if bit m 8 \<and> \<not> bit cm 8 then Some DIR_ASSERTED
      else if \<not> bit m 8 \<and> bit cm 8 then Some DIR_DEASSERTED else None)"
    using branchDir_pow2[of _ _ 8] by (simp add: BIT_8_def)
  have f4: "filter (\<lambda>br. br_mask br = BIT_4) (vrdHotBranches d) = [coreBranch d BIT_4 VRD_1]"
    by (simp add: vrdHotBranches_def socBranch_def coreBranch_def dimmBranch_def ras_consts)
  have f8: "filter (\<lambda>br. br_mask br = BIT_8) (vrdHotBranches d) = [dimmBranch d BIT_8 VRD_1]"
    by (simp add: vrdHotBranches_def socBranch_def coreBranch_def dimmBranch_def ras_consts)
  have eff: "effectsOf = (\<lambda>e. [AddSelOem ''OEM RAS error:'' (em_sel e) 0xC0,
                                 JournalSend (em_msgid e) (em_args e)])"
    by (rule ext) (simp add: effectsOf_def ras_consts)
  have tr: "trace (snd (logEventVrdHot d eFields w)) =
           trace w @ concat (map (\<lambda>e. [AddSelOem ''OEM RAS error:'' (em_sel e) 0xC0,
                                       JournalSend (em_msgid e) (em_args e)])
                              (fst (logEventVrdHot d eFields w)))"
    by (simp add: logEventVrdHot_def runBranches_eq Let_def eff)
  have rails: "(socket d = 0 \<and> bit (data eFields) 4 \<and> \<not> bit (curEventMask w ! unat (idx d)) 4 \<longrightarrow>
            map (\<lambda>e. (em_dir e, em_sel e ! 7, em_sel e ! 8))
              (filter (\<lambda>e. em_mask e = BIT_4) (fst (logEventVrdHot d eFields w)))
            = [(DIR_ASSERTED, 0x10, 0x01)]) \<and>
         (socket d = 1 \<and> bit (data eFields) 8 \<and> \<not> bit (curEventMask w ! unat (idx d)) 8 \<longrightarrow>
            map (\<lambda>e. (em_dir e, em_sel e ! 7, em_sel e ! 8))
              (filter (\<lambda>e. em_mask e = BIT_8) (fst (logEventVrdHot d eFields w)))
            = [(DIR_ASSERTED, 0x21, 0x01)])"
    apply (simp add: logEventVrdHot_def runBranches_eq Let_def filter_emissionsOf f4 f8)
    apply (simp add: emissionsOf_def d4 d8 coreBranch_def dimmBranch_def)
    apply (simp add: branchEmission_def hdr_def ras_consts)
    done
  show ?thesis using rails tr by blast
qed

theorem vrdHot_rail_bytes_witness:
  "unat (idx (eventTypeTable ! 4)) < length (curEventMask initialWorld) \<and>
   socket (eventTypeTable ! 4) = 1 \<and> bit (0x0100 :: u16) 8 \<and>
   \<not> bit (curEventMask initialWorld ! unat (idx (eventTypeTable ! 4))) 8 \<and>
   map (\<lambda>e. (em_dir e, em_sel e ! 7, em_sel e ! 8))
     (filter (\<lambda>e. em_mask e = BIT_8)
        (fst (logEventVrdHot (eventTypeTable ! 4) \<lparr>type = event_vrd_hot, data = 0x0100\<rparr>
           initialWorld)))
   = [(DIR_ASSERTED, 0x21, 0x01)] \<and>
   unat (idx (eventTypeTable ! 1)) < length (curEventMask initialWorld) \<and>
   socket (eventTypeTable ! 1) = 0 \<and> bit (0x0010 :: u16) 4 \<and>
   \<not> bit (curEventMask initialWorld ! unat (idx (eventTypeTable ! 1))) 4 \<and>
   map (\<lambda>e. (em_dir e, em_sel e ! 7, em_sel e ! 8))
     (filter (\<lambda>e. em_mask e = BIT_4)
        (fst (logEventVrdHot (eventTypeTable ! 1) \<lparr>type = event_vrd_hot, data = 0x0010\<rparr>
           initialWorld)))
   = [(DIR_ASSERTED, 0x10, 0x01)]"
proof -
  have p: "unat (idx (eventTypeTable ! 4)) < length (curEventMask initialWorld)"
    "unat (idx (eventTypeTable ! 1)) < length (curEventMask initialWorld)"
    by (simp_all add: eventTypeTable_def initialWorld_def NUMBER_OF_EVENTS_def)
  have q: "socket (eventTypeTable ! 4) = 1" "bit (0x0100 :: u16) 8"
    "\<not> bit (curEventMask initialWorld ! unat (idx (eventTypeTable ! 4))) 8"
    "socket (eventTypeTable ! 1) = 0" "bit (0x0010 :: u16) 4"
    "\<not> bit (curEventMask initialWorld ! unat (idx (eventTypeTable ! 1))) 4"
    by (simp_all add: eventTypeTable_def initialWorld_def NUMBER_OF_EVENTS_def)
  have a: "map (\<lambda>e. (em_dir e, em_sel e ! 7, em_sel e ! 8))
     (filter (\<lambda>e. em_mask e = BIT_8)
        (fst (logEventVrdHot (eventTypeTable ! 4) \<lparr>type = event_vrd_hot, data = 0x0100\<rparr>
           initialWorld)))
   = [(DIR_ASSERTED, 0x21, 0x01)]"
    using vrdHot_rail_bytes[OF p(1), of "\<lparr>type = event_vrd_hot, data = 0x0100\<rparr>"] q
    by simp
  have b: "map (\<lambda>e. (em_dir e, em_sel e ! 7, em_sel e ! 8))
     (filter (\<lambda>e. em_mask e = BIT_4)
        (fst (logEventVrdHot (eventTypeTable ! 1) \<lparr>type = event_vrd_hot, data = 0x0010\<rparr>
           initialWorld)))
   = [(DIR_ASSERTED, 0x10, 0x01)]"
    using vrdHot_rail_bytes[OF p(2), of "\<lparr>type = event_vrd_hot, data = 0x0010\<rparr>"] q
    by simp
  show ?thesis
    by (intro conjI p q a b)
qed

section \<open>The bits the VRD-hot handler does not look at\<close>

lemma vrdHot_masks_in_scan:
  "bm \<in> set (map br_mask (vrdHotBranches d)) \<Longrightarrow> (x AND vrdHotScanMask) AND bm = x AND bm"
  by (auto simp: vrdHotBranches_def socBranch_def coreBranch_def dimmBranch_def
      vrdHotScanMask_def ras_consts and.assoc)

text \<open>
  Claim C10. For \<open>i\<close> among 1, 2, 3, 7, 12, 13, 14, 15: the VRD-hot handler emits
  no record for bit \<open>i\<close>, whatever the input mask; it leaves bit \<open>i\<close> of the row's stored
  mask as it was; and it reads neither those bits of the input (masking them off gives
  the same result) nor those bits of the stored mask (masking them off gives the same
  emissions).
\<close>

theorem vrdHot_frame:
  assumes "unat (idx d) < length (curEventMask w)"
    and "i \<in> {1, 2, 3, 7, 12, 13, 14, 15}"
  shows "filter (\<lambda>e. em_mask e = 2 ^ i) (fst (logEventVrdHot d eFields w)) = [] \<and>
         bit (curEventMask (snd (logEventVrdHot d eFields w)) ! unat (idx d)) i =
           bit (curEventMask w ! unat (idx d)) i \<and>
         logEventVrdHot d (eFields\<lparr>data := data eFields AND vrdHotScanMask\<rparr>) w =
           logEventVrdHot d eFields w \<and>
         fst (logEventVrdHot d eFields
               (w\<lparr>curEventMask := (curEventMask w)[unat (idx d) :=
                     curEventMask w ! unat (idx d) AND vrdHotScanMask]\<rparr>)) =
           fst (logEventVrdHot d eFields w)"
proof -
  have i16: "i < 16" and ns: "i \<notin> set (scannedBits event_vrd_hot)"
    using assms(2) by (auto simp: scannedBits_def ras_consts)
  have hb: "handlerBranches event_vrd_hot d = vrdHotBranches d"
    by (simp add: handlerBranches_def ras_consts)
  have masks: "map br_mask (vrdHotBranches d) = map (\<lambda>i. 2 ^ i) (scannedBits event_vrd_hot)"
    using handlerBranches_masks[of event_vrd_hot d] by (simp add: hb)
  have bms: "\<And>k. k \<in> set (scannedBits event_vrd_hot) \<Longrightarrow> (2 ^ k :: u16) \<noteq> 2 ^ i"
    using pow2_u16_inj[OF _ i16] scannedBits_lt ns by metis
  have "filter (\<lambda>br. br_mask br = 2 ^ i) (vrdHotBranches d) = []"
  proof -
    have "\<forall>br\<in>set (vrdHotBranches d). br_mask br \<noteq> 2 ^ i"
    proof
      fix br assume "br \<in> set (vrdHotBranches d)"
      then have "br_mask br \<in> set (map br_mask (vrdHotBranches d))" by simp
      then obtain k where "k \<in> set (scannedBits event_vrd_hot)" "br_mask br = 2 ^ k"
        unfolding masks by auto
      then show "br_mask br \<noteq> 2 ^ i" using bms[of k] by simp
    qed
    then show ?thesis by (simp add: filter_empty_conv)
  qed
  then have A: "filter (\<lambda>e. em_mask e = 2 ^ i) (fst (logEventVrdHot d eFields w)) = []"
    by (simp add: logEventVrdHot_def runBranches_eq Let_def filter_emissionsOf)
  have B: "bit (curEventMask (snd (logEventVrdHot d eFields w)) ! unat (idx d)) i =
           bit (curEventMask w ! unat (idx d)) i"
    using assms(1) ns bit_maskAfter[OF scannedBits_distinct, of event_vrd_hot
        "curEventMask w ! unat (idx d)" "curEventMask w ! unat (idx d)" "data eFields" i]
      scannedBits_lt
    by (simp add: logEventVrdHot_def runBranches_eq Let_def masks)
  let ?cm = "curEventMask w ! unat (idx d)"
  have sameC: "\<forall>bm\<in>set (map br_mask (vrdHotBranches d)).
      (data eFields AND vrdHotScanMask) AND bm = data eFields AND bm \<and> ?cm AND bm = ?cm AND bm"
    using vrdHot_masks_in_scan[of _ d] by blast
  have C: "logEventVrdHot d (eFields\<lparr>data := data eFields AND vrdHotScanMask\<rparr>) w =
           logEventVrdHot d eFields w"
    using same_on_masks[OF sameC]
    by (simp add: logEventVrdHot_def runBranches_eq Let_def)
  have sameD: "\<forall>bm\<in>set (map br_mask (vrdHotBranches d)).
      data eFields AND bm = data eFields AND bm \<and> (?cm AND vrdHotScanMask) AND bm = ?cm AND bm"
    using vrdHot_masks_in_scan[of _ d] by blast
  have D: "fst (logEventVrdHot d eFields
               (w\<lparr>curEventMask := (curEventMask w)[unat (idx d) := ?cm AND vrdHotScanMask]\<rparr>)) =
           fst (logEventVrdHot d eFields w)"
    using same_on_masks(1)[OF sameD] assms(1)
    by (simp add: logEventVrdHot_def runBranches_eq Let_def)
  show ?thesis using A B C D by simp
qed

theorem vrdHot_frame_witness:
  "unat (idx (eventTypeTable ! 4)) < length (curEventMask initialWorld) \<and>
   (7 :: nat) \<in> {1, 2, 3, 7, 12, 13, 14, 15} \<and>
   filter (\<lambda>e. em_mask e = 2 ^ 7)
     (fst (logEventVrdHot (eventTypeTable ! 4) \<lparr>type = event_vrd_hot, data = 0xFFFF\<rparr>
        initialWorld)) = [] \<and>
   \<not> bit (curEventMask (snd (logEventVrdHot (eventTypeTable ! 4)
        \<lparr>type = event_vrd_hot, data = 0xFFFF\<rparr> initialWorld)) ! 4) 7 \<and>
   length (fst (logEventVrdHot (eventTypeTable ! 4) \<lparr>type = event_vrd_hot, data = 0xFFFF\<rparr>
        initialWorld)) = 8"
proof -
  have p: "unat (idx (eventTypeTable ! 4)) < length (curEventMask initialWorld)"
    by (simp add: eventTypeTable_def initialWorld_def NUMBER_OF_EVENTS_def)
  have i: "(7 :: nat) \<in> {1, 2, 3, 7, 12, 13, 14, 15}" by simp
  have r: "unat (idx (eventTypeTable ! 4)) = 4" "\<not> bit (curEventMask initialWorld ! 4) 7"
    by (simp_all add: eventTypeTable_def initialWorld_def NUMBER_OF_EVENTS_def)
  have n: "length (fst (logEventVrdHot (eventTypeTable ! 4)
       \<lparr>type = event_vrd_hot, data = 0xFFFF\<rparr> initialWorld)) = 8"
    by code_simp
  show ?thesis
    using vrdHot_frame[OF p i, of "\<lparr>type = event_vrd_hot, data = 0xFFFF\<rparr>"] p i r n
    by simp
qed

section \<open>DIMM-hot: the payload for DIMM index 1\<close>

lemma ucast_pow2_high: "8 \<le> i \<Longrightarrow> (ucast (2 ^ i :: u16) :: u8) = 0"
  by (rule bit_word_eqI) (auto simp: bit_ucast_iff bit_exp_iff)

lemma dimmHot_emission:
  assumes "e \<in> set (fst (logEventDIMMHot d eFields w))" "em_mask e = 2 ^ i" "8 \<le> i" "i < 16"
  shows "em_sel e = hdr d (push_bit 7 (em_dir e) OR eventReadType d) 0 0"
proof -
  obtain br dr where br: "br \<in> set (map (dimmHotBranch d) [0..<SMPRO_DATA_REG_SIZE])"
      and e: "e = branchEmission d
            (snprintf MAX_MSG_LEN (''OpenBMC.0.1.'' @ redFishMsgID d @ ''.Warning'')) br dr"
    using assms(1) set_emissionsOf
    by (fastforce simp: logEventDIMMHot_def runBranches_eq Let_def)
  then obtain k where k: "k < 16" "br = dimmHotBranch d k"
    by (auto simp: SMPRO_DATA_REG_SIZE_def)
  have "(2 ^ k :: u16) = 2 ^ i"
    using assms(2) e k by (simp add: branchEmission_def dimmHotBranch_def Let_def)
  then have ki: "k = i" using pow2_u16_inj[OF k(1) assms(4)] by simp
  have "i div 8 \<noteq> 0" using assms(3) by simp
  then show ?thesis
    using e k ki ucast_pow2_high[OF assms(3)]
    by (simp add: branchEmission_def dimmHotBranch_def Let_def)
qed

text \<open>
  Claim C9. In the DIMM-hot handler, an emission for a bit \<open>i\<close> from 8 to 15 has a
  payload of 12 bytes with byte 7 equal to 0 and byte 8 equal to the low eight bits of
  \<open>2 ^ i\<close>, which is 0. Two such emissions of the same direction, for any two bits from
  8 to 15 and from any two calls for the row, have the same payload: it does not tell the
  channel.
\<close>

theorem dimmHot_upper_bits_payload:
  assumes "e1 \<in> set (fst (logEventDIMMHot d eFields w))" "em_mask e1 = 2 ^ i" "8 \<le> i" "i < 16"
    and "e2 \<in> set (fst (logEventDIMMHot d eFields' w'))" "em_mask e2 = 2 ^ j" "8 \<le> j" "j < 16"
    and "em_dir e1 = em_dir e2"
  shows "length (em_sel e1) = 12 \<and> em_sel e1 ! 7 = 0 \<and> em_sel e1 ! 8 = ucast (2 ^ i :: u16) \<and>
         (ucast (2 ^ i :: u16) :: u8) = 0 \<and>
         em_sel e1 = [0x3A, 0xCD, 0x00, eventType d, eventNum d,
                      push_bit 7 (em_dir e1) OR eventReadType d, 0xA1, 0, 0, 0xFF, 0xFF, 0xFF] \<and>
         em_sel e1 = em_sel e2"
  using dimmHot_emission[OF assms(1-4)] dimmHot_emission[OF assms(5-8)] assms(9)
    ucast_pow2_high[OF assms(3)]
  by (simp add: hdr_def ras_consts)

theorem dimmHot_upper_bits_payload_witness:
  "fst (logEventDIMMHot (eventTypeTable ! 2) \<lparr>type = event_dimm_hot, data = 0x0300\<rparr>
      initialWorld) ! 0
     \<in> set (fst (logEventDIMMHot (eventTypeTable ! 2) \<lparr>type = event_dimm_hot, data = 0x0300\<rparr>
      initialWorld)) \<and>
   fst (logEventDIMMHot (eventTypeTable ! 2) \<lparr>type = event_dimm_hot, data = 0x0300\<rparr>
      initialWorld) ! 1
     \<in> set (fst (logEventDIMMHot (eventTypeTable ! 2) \<lparr>type = event_dimm_hot, data = 0x0300\<rparr>
      initialWorld)) \<and>
   map em_mask (fst (logEventDIMMHot (eventTypeTable ! 2)
      \<lparr>type = event_dimm_hot, data = 0x0300\<rparr> initialWorld)) = [2 ^ 8, 2 ^ 9] \<and>
   map em_dir (fst (logEventDIMMHot (eventTypeTable ! 2)
      \<lparr>type = event_dimm_hot, data = 0x0300\<rparr> initialWorld)) = [DIR_ASSERTED, DIR_ASSERTED] \<and>
   (8 :: nat) \<le> 8 \<and> (8 :: nat) < 16 \<and> (8 :: nat) \<le> 9 \<and> (9 :: nat) < 16 \<and>
   em_sel (fst (logEventDIMMHot (eventTypeTable ! 2) \<lparr>type = event_dimm_hot, data = 0x0300\<rparr>
      initialWorld) ! 0) =
   em_sel (fst (logEventDIMMHot (eventTypeTable ! 2) \<lparr>type = event_dimm_hot, data = 0x0300\<rparr>
      initialWorld) ! 1) \<and>
   em_sel (fst (logEventDIMMHot (eventTypeTable ! 2) \<lparr>type = event_dimm_hot, data = 0x0300\<rparr>
      initialWorld) ! 0) ! 7 = 0 \<and>
   em_sel (fst (logEventDIMMHot (eventTypeTable ! 2) \<lparr>type = event_dimm_hot, data = 0x0300\<rparr>
      initialWorld) ! 0) ! 8 = 0"
proof -
  let ?ems = "fst (logEventDIMMHot (eventTypeTable ! 2)
      \<lparr>type = event_dimm_hot, data = 0x0300\<rparr> initialWorld)"
  have m: "map em_mask ?ems = [2 ^ 8, 2 ^ 9]"
    by code_simp
  have dr: "map em_dir ?ems = [DIR_ASSERTED, DIR_ASSERTED]"
    by code_simp
  have len: "length ?ems = 2"
    using m by (metis length_map length_Cons list.size(3) numeral_2_eq_2)
  have in0: "?ems ! 0 \<in> set ?ems" and in1: "?ems ! 1 \<in> set ?ems"
    using len by simp_all
  have m0: "em_mask (?ems ! 0) = 2 ^ 8" and m1: "em_mask (?ems ! 1) = 2 ^ 9"
  proof -
    have "map em_mask ?ems ! 0 = 2 ^ 8" "map em_mask ?ems ! 1 = 2 ^ 9" unfolding m by simp_all
    then show "em_mask (?ems ! 0) = 2 ^ 8" "em_mask (?ems ! 1) = 2 ^ 9" using len by simp_all
  qed
  have d01: "em_dir (?ems ! 0) = em_dir (?ems ! 1)"
  proof -
    have "map em_dir ?ems ! 0 = map em_dir ?ems ! 1" unfolding dr by simp
    then show ?thesis using len by simp
  qed
  have a: "(8 :: nat) \<le> 8" "(8 :: nat) < 16" "(8 :: nat) \<le> 9" "(9 :: nat) < 16" by simp_all
  have main: "length (em_sel (?ems ! 0)) = 12 \<and> em_sel (?ems ! 0) ! 7 = 0 \<and>
      em_sel (?ems ! 0) ! 8 = ucast (2 ^ 8 :: u16) \<and>
      (ucast (2 ^ 8 :: u16) :: u8) = 0 \<and>
      em_sel (?ems ! 0) = [0x3A, 0xCD, 0x00, eventType (eventTypeTable ! 2), eventNum (eventTypeTable ! 2),
                      push_bit 7 (em_dir (?ems ! 0)) OR eventReadType (eventTypeTable ! 2),
                      0xA1, 0, 0, 0xFF, 0xFF, 0xFF] \<and>
      em_sel (?ems ! 0) = em_sel (?ems ! 1)"
    using dimmHot_upper_bits_payload[OF in0 m0 a(1) a(2) in1 m1 a(3) a(4) d01] .
  then have s0: "em_sel (?ems ! 0) = em_sel (?ems ! 1)" "em_sel (?ems ! 0) ! 7 = 0"
    "em_sel (?ems ! 0) ! 8 = 0" by metis+
  show ?thesis
    by (intro conjI in0 in1 m dr a s0)
qed

section \<open>Lines with too few tokens\<close>

lemmas parse_defs = parseHexStrToUInt8_def parseHexStrToUInt16_def parseHexStrToUInt32_def
  parseHexStrToUInt64_def strtoul16_def c_str_def isspace_def isxdigit_def hexDigit_def
  hexValue_def Let_def



section \<open>The overflow record\<close>

lemma overflow_key: "map_of mapOfOccur 0xffff = Some (mkErrorInfo 255 255 1 ''Overflow'' ''Socket%s'')"
  by (simp add: mapOfOccur_def)

lemma sel_payload:
  "(replicate SEL_OEM_DATA_MAX_SIZE (0xFF :: u8))
      [0 := a0, 1 := a1, 2 := a2, 3 := a3, 4 := a4, 5 := a5, 6 := a6, 7 := a7, 8 := a8]
   = [a0, a1, a2, a3, a4, a5, a6, a7, a8, 0xFF, 0xFF, 0xFF]"
  by (simp add: SEL_OEM_DATA_MAX_SIZE_def numeral_eq_Suc)

lemma tokens_overflow:
  "tokens ''ff ff 0000 00000000 0000000000000000'' =
     [''ff'', ''ff'', ''0000'', ''00000000'', ''0000000000000000'']"
  by code_simp

lemma parse8_ff: "parseHexStrToUInt8 32 ''ff'' = 0xff" "parseHexStrToUInt8 64 ''ff'' = 0xff"
  by (simp_all add: parse_defs)

text \<open>
  Claim C6. For a descriptor of socket 1 and a line of at least five tokens whose first
  two parse to \<open>0xff\<close>, the instance field is replaced by \<open>1 << 14 = 0x4000\<close>, the key
  \<open>0xffff\<close> is found in \<open>mapOfOccur\<close> (the entry "Overflow"), and the line is
  logged through the overflow path: one SEL record with bytes 7 and 8 equal to \<open>0x40\<close> and
  \<open>0x00\<close>, and one journal entry of the registry \<open>AmpereCritical\<close> with the arguments
  "<errName>: Overflow" and "Socket1".
\<close>

theorem overflow_record_routing:
  assumes "ErrorData.socket d = 1" "5 \<le> length (tokens line)"
    and "parseHexStrToUInt8 ul (tokens line ! 0) = 0xff"
    and "parseHexStrToUInt8 ul (tokens line ! 1) = 0xff"
  shows "instance' (parseErrorFields ul ef d (tokens line)) = 0x4000 \<and>
         map_of mapOfOccur 0xffff = Some (mkErrorInfo 255 255 1 ''Overflow'' ''Socket%s'') \<and>
         parseAndLogErrors ul ef d line w =
           Inr (1, w\<lparr>trace := trace w @
              [AddSelOem ''OEM RAS error:''
                 [0x3A, 0xCD, 0x00, ErrorData.errType d, errNum d, 0xFF, 0xFF, 0x40, 0x00,
                  0xFF, 0xFF, 0xFF] 0xC0,
               JournalSend ''OpenBMC.0.1.AmpereCritical.Critical''
                 [take 127 (errName d @ '': Overflow''), ''Socket1'']]\<rparr>)"
proof -
  let ?f = "parseErrorFields ul ef d (tokens line)"
  have f: "ErrorFields.errType ?f = 0xff" "subType ?f = 0xff" "instance' ?f = 0x4000"
    using assms by (simp_all add: parseErrorFields_def Let_def)
  have sd: "showDec (Suc 0) = ''1''"
    by (simp add: showDec.simps digitChar_def)
  have red: "logErrorToRedfish d ?f w' =
        Inr (w'\<lparr>trace := trace w' @ [JournalSend ''OpenBMC.0.1.AmpereCritical.Critical''
                 [take 127 (errName d @ '': Overflow''), ''Socket1'']]\<rparr>)" for w'
    unfolding logErrorToRedfish_def Let_def f
    by (simp add: overflow_key mkErrorInfo_def sd snprintf_def sd_journal_send_def ras_consts)
  have sel: "logErrorToIpmiSEL d ?f w =
        w\<lparr>trace := trace w @ [AddSelOem ''OEM RAS error:''
                 [0x3A, 0xCD, 0x00, ErrorData.errType d, errNum d, 0xFF, 0xFF, 0x40, 0x00,
                  0xFF, 0xFF, 0xFF] 0xC0]\<rparr>"
    unfolding logErrorToIpmiSEL_def Let_def f sel_payload
    by (simp add: addSelOem_def ras_consts)
  show ?thesis
    using assms(2) f(3) overflow_key
    by (simp add: parseAndLogErrors_def Let_def red sel)
qed

theorem overflow_record_routing_witness:
  "ErrorData.socket (errorTypeTable ! 4) = 1 \<and>
   5 \<le> length (tokens ''ff ff 0000 00000000 0000000000000000'') \<and>
   parseHexStrToUInt8 32 (tokens ''ff ff 0000 00000000 0000000000000000'' ! 0) = 0xff \<and>
   parseHexStrToUInt8 32 (tokens ''ff ff 0000 00000000 0000000000000000'' ! 1) = 0xff \<and>
   instance' (parseErrorFields 32
     \<lparr>ErrorFields.errType = 0, subType = 0, instance' = 0, status = 0, address = 0,
      misc0 = 0, misc1 = 0, misc2 = 0, misc3 = 0\<rparr>
     (errorTypeTable ! 4) (tokens ''ff ff 0000 00000000 0000000000000000'')) = 0x4000 \<and>
   parseAndLogErrors 32
     \<lparr>ErrorFields.errType = 0, subType = 0, instance' = 0, status = 0, address = 0,
      misc0 = 0, misc1 = 0, misc2 = 0, misc3 = 0\<rparr>
     (errorTypeTable ! 4) ''ff ff 0000 00000000 0000000000000000'' initialWorld =
     Inr (1, initialWorld\<lparr>trace :=
       [AddSelOem ''OEM RAS error:''
          [0x3A, 0xCD, 0x00, 0x07, 140, 0xFF, 0xFF, 0x40, 0x00, 0xFF, 0xFF, 0xFF] 0xC0,
        JournalSend ''OpenBMC.0.1.AmpereCritical.Critical''
          [''UE_CPU_IError: Overflow'', ''Socket1'']]\<rparr>)"
proof -
  have p: "ErrorData.socket (errorTypeTable ! 4) = 1"
    "5 \<le> length (tokens ''ff ff 0000 00000000 0000000000000000'')"
    "parseHexStrToUInt8 32 (tokens ''ff ff 0000 00000000 0000000000000000'' ! 0) = 0xff"
    "parseHexStrToUInt8 32 (tokens ''ff ff 0000 00000000 0000000000000000'' ! 1) = 0xff"
    by (simp_all add: tokens_overflow parse8_ff errorTypeTable_def mkErrorData_def)
  have d: "errName (errorTypeTable ! 4) = ''UE_CPU_IError''"
    "ErrorData.errType (errorTypeTable ! 4) = 0x07" "errNum (errorTypeTable ! 4) = 140"
    by (simp_all add: errorTypeTable_def mkErrorData_def ras_consts)
  note r = overflow_record_routing[OF p, where w = initialWorld and ef =
     "\<lparr>ErrorFields.errType = 0, subType = 0, instance' = 0, status = 0, address = 0,
      misc0 = 0, misc1 = 0, misc2 = 0, misc3 = 0\<rparr>"]
  have i: "instance' (parseErrorFields 32
     \<lparr>ErrorFields.errType = 0, subType = 0, instance' = 0, status = 0, address = 0,
      misc0 = 0, misc1 = 0, misc2 = 0, misc3 = 0\<rparr>
     (errorTypeTable ! 4) (tokens ''ff ff 0000 00000000 0000000000000000'')) = 0x4000"
    using r by blast
  have t: "parseAndLogErrors 32
     \<lparr>ErrorFields.errType = 0, subType = 0, instance' = 0, status = 0, address = 0,
      misc0 = 0, misc1 = 0, misc2 = 0, misc3 = 0\<rparr>
     (errorTypeTable ! 4) ''ff ff 0000 00000000 0000000000000000'' initialWorld =
     Inr (1, initialWorld\<lparr>trace :=
       [AddSelOem ''OEM RAS error:''
          [0x3A, 0xCD, 0x00, 0x07, 140, 0xFF, 0xFF, 0x40, 0x00, 0xFF, 0xFF, 0xFF] 0xC0,
        JournalSend ''OpenBMC.0.1.AmpereCritical.Critical''
          [''UE_CPU_IError: Overflow'', ''Socket1'']]\<rparr>)"
    using r by (simp add: d initialWorld_def)
  show ?thesis by (intro conjI p i t)
qed

section \<open>The hexadecimal parsers\<close>

lemma strtoul16_garbage:
  assumes c: "c \<in> set nptr" and nx: "\<not> isxdigit c" and ns: "\<not> isspace c"
    and nsign: "c \<noteq> CHR ''+''" "c \<noteq> CHR ''-''" and nxx: "c \<noteq> CHR ''x''" "c \<noteq> CHR ''X''"
  shows "snd (strtoul16 bits nptr) \<noteq> []"
proof -
  define s1 where "s1 = dropWhile isspace nptr"
  define s2 where "s2 = (case s1 of [] \<Rightarrow> s1
                | c # r \<Rightarrow> if c = CHR ''-'' \<or> c = CHR ''+'' then r else s1)"
  define prefixed where "prefixed = (case s2 of
                        c0 # c1 # _ \<Rightarrow> c0 = CHR ''0'' \<and> (c1 = CHR ''x'' \<or> c1 = CHR ''X'')
                      | _ \<Rightarrow> False)"
  define s3 where "s3 = (if prefixed then drop 2 s2 else s2)"
  have "set nptr = set (takeWhile isspace nptr) \<union> set s1"
    unfolding s1_def by (metis set_append takeWhile_dropWhile_id)
  moreover have "c \<notin> set (takeWhile isspace nptr)"
    using ns by (meson set_takeWhileD)
  ultimately have c1: "c \<in> set s1" using c by auto
  have c2: "c \<in> set s2"
    using c1 nsign unfolding s2_def by (cases s1) (auto split: if_splits)
  have zero: "isxdigit (CHR ''0'')" by (simp add: isxdigit_def hexDigit_def)
  have c3: "c \<in> set s3"
  proof (cases prefixed)
    case True
    then obtain c0 c1 r where s2: "s2 = c0 # c1 # r" "c0 = CHR ''0''" "c1 = CHR ''x'' \<or> c1 = CHR ''X''"
      unfolding prefixed_def by (auto split: list.splits)
    then show ?thesis using c2 nxx nx zero True by (auto simp: s3_def)
  next
    case False
    then show ?thesis using c2 by (simp add: s3_def)
  qed
  have "set s3 = set (takeWhile isxdigit s3) \<union> set (dropWhile isxdigit s3)"
    by (metis set_append takeWhile_dropWhile_id)
  moreover have "c \<notin> set (takeWhile isxdigit s3)"
    using nx by (meson set_takeWhileD)
  ultimately have c4: "c \<in> set (dropWhile isxdigit s3)" using c3 by auto
  have pre: "prefixed \<Longrightarrow> drop 1 s2 \<noteq> []"
    unfolding prefixed_def by (auto split: list.splits)
  have "snd (strtoul16 bits nptr) =
      (if takeWhile isxdigit s3 = [] then (if prefixed then drop 1 s2 else nptr)
       else dropWhile isxdigit s3)"
    unfolding strtoul16_def Let_def s3_def prefixed_def s2_def s1_def by simp
  moreover have "dropWhile isxdigit s3 \<noteq> []" using c4 by force
  moreover have "nptr \<noteq> []" using c by force
  ultimately show ?thesis using pre by simp
qed

lemma c_str_no_nul: "\<forall>c\<in>set s. isxdigit c \<Longrightarrow> c_str s = s"
  unfolding c_str_def by (rule takeWhile_eq_all_conv[THEN iffD2])
    (auto simp: isxdigit_def hexDigit_def)

lemma strtoul16_digits:
  assumes "s \<noteq> []" "\<forall>c\<in>set s. isxdigit c"
  shows "strtoul16 bits s = (min (hexValue s) (2 ^ bits - 1), [])"
proof -
  obtain c r where s: "s = c # r" using assms(1) by (cases s) auto
  have xc: "isxdigit c" using assms(2) s by simp
  have nsp: "\<not> isspace c" using xc by (auto simp: isxdigit_def hexDigit_def isspace_def)
  have nsg: "c \<noteq> CHR ''-''" "c \<noteq> CHR ''+''"
    using xc by (auto simp: isxdigit_def hexDigit_def)
  have s1: "dropWhile isspace s = s" using s nsp by simp
  have npre: "\<not> (case s of c0 # c1 # _ \<Rightarrow> c0 = CHR ''0'' \<and> (c1 = CHR ''x'' \<or> c1 = CHR ''X'')
                      | _ \<Rightarrow> False)"
  proof (cases r)
    case Nil then show ?thesis using s by simp
  next
    case (Cons c1 r')
    then have "isxdigit c1" using assms(2) s by simp
    then have "c1 \<noteq> CHR ''x''" "c1 \<noteq> CHR ''X''" by (auto simp: isxdigit_def hexDigit_def)
    then show ?thesis using s Cons by simp
  qed
  have tw: "takeWhile isxdigit s = s" "dropWhile isxdigit s = []"
    using assms(2) by simp_all
  have one: "(1::nat) \<le> 2 ^ bits" by simp
  show ?thesis
    unfolding strtoul16_def Let_def s1
    using nsg npre tw assms(1) s one
    by (auto simp: min_def)
qed

lemma mask_all_ones:
  "(x :: u8) AND 0xff = x" "(y :: u16) AND 0xffff = y" "(z :: u32) AND 0xffffffff = z"
  "(v :: u64) AND 0xffffffffffffffff = v"
proof -
  have h: "(0xff :: u8) = - 1" "(0xffff :: u16) = - 1" "(0xffffffff :: u32) = - 1"
    "(0xffffffffffffffff :: u64) = - 1" by simp_all
  show "x AND 0xff = x" unfolding h by simp
  show "y AND 0xffff = y" unfolding h by simp
  show "z AND 0xffffffff = z" unfolding h by simp
  show "v AND 0xffffffffffffffff = v" unfolding h by simp
qed

lemma parse_digits:
  assumes "h \<noteq> []" "\<forall>c\<in>set h. isxdigit c"
  shows "unat (parseHexStrToUInt8 ul h) = min (hexValue h) (2 ^ ul - 1) mod 2 ^ 8"
    "unat (parseHexStrToUInt16 ul h) = min (hexValue h) (2 ^ ul - 1) mod 2 ^ 16"
    "unat (parseHexStrToUInt32 ul h) = min (hexValue h) (2 ^ ul - 1) mod 2 ^ 32"
    "unat (parseHexStrToUInt64 h) = min (hexValue h) (2 ^ 64 - 1) mod 2 ^ 64"
  using strtoul16_digits[OF assms] c_str_no_nul[OF assms(2)]
  by (simp_all add: parseHexStrToUInt8_def parseHexStrToUInt16_def parseHexStrToUInt32_def
      parseHexStrToUInt64_def mask_all_ones unat_of_nat)

lemma parse_garbage:
  assumes "c \<in> set (c_str g)" "\<not> isxdigit c" "\<not> isspace c"
    "c \<noteq> CHR ''+''" "c \<noteq> CHR ''-''" "c \<noteq> CHR ''x''" "c \<noteq> CHR ''X''"
  shows "parseHexStrToUInt8 ul g = 0" "parseHexStrToUInt16 ul g = 0"
    "parseHexStrToUInt32 ul g = 0" "parseHexStrToUInt64 g = 0"
  using strtoul16_garbage[OF assms, of ul] strtoul16_garbage[OF assms, of 64]
  by (simp_all add: parseHexStrToUInt8_def parseHexStrToUInt16_def parseHexStrToUInt32_def
      parseHexStrToUInt64_def split_beta)

lemma tokens_0x: "tokens ''0x 1 2 3 4'' = [''0x'', ''1'', ''2'', ''3'', ''4'']"
  by (simp add: tokens_def)

lemma parse8_0x: "parseHexStrToUInt8 ul ''0x'' = 0"
  by (simp add: parse_defs)

lemma parse_1_2:
  assumes "2 \<le> ul"
  shows "parseHexStrToUInt8 ul ''1'' = 1" "parseHexStrToUInt16 ul ''2'' = 2"
proof -
  have "(2::nat) ^ 2 \<le> 2 ^ ul"
    using assms by (rule power_increasing) simp
  then have p: "(4::nat) \<le> 2 ^ ul" by simp
  have x: "\<forall>c\<in>set ''1''. isxdigit c" "\<forall>c\<in>set ''2''. isxdigit c"
    by (simp_all add: isxdigit_def hexDigit_def)
  have v: "hexValue ''1'' = 1" "hexValue ''2'' = 2"
    by (simp_all add: hexValue_def hexDigit_def)
  have "unat (parseHexStrToUInt8 ul ''1'') = 1"
    using parse_digits(1)[OF _ x(1), of ul] p by (simp add: v min_def)
  then show "parseHexStrToUInt8 ul ''1'' = 1"
    by (simp add: word_unat_eq_iff)
  have "unat (parseHexStrToUInt16 ul ''2'') = 2"
    using parse_digits(2)[OF _ x(2), of ul] p by (simp add: v min_def)
  then show "parseHexStrToUInt16 ul ''2'' = 2"
    by (simp add: word_unat_eq_iff)
qed

lemma c_str_0x: "c_str ''0x 1 2 3 4'' = ''0x 1 2 3 4''"
  by (simp add: c_str_def)

text \<open>
  One line of a file of bus errors: the loop goes on with the next line when the parser
  returns, and ends with the fault when the parser stops at one. A descriptor of a
  category other than memory never reaches the call without \<open>NULL\<close>.
\<close>

lemma logErrors_Cons_Inr:
  assumes "intErrorType d \<noteq> errors_smpro" "intErrorType d \<noteq> errors_pmpro"
    and "parseAndLogErrors ul ef d (c_str l) w = Inr (r, w')"
  shows "logErrors ul tabs ef d (Some (l # rest)) w = logErrors ul tabs ef d (Some rest) w'"
  using assms by (simp add: logErrors_def)

lemma logErrors_Cons_Inl:
  assumes "intErrorType d \<noteq> errors_smpro" "intErrorType d \<noteq> errors_pmpro"
    and "parseAndLogErrors ul ef d (c_str l) w = Inl e"
  shows "logErrors ul tabs ef d (Some (l # rest)) w = Inl e"
  using assms by (simp add: logErrors_def)

lemma logErrors_short_line:
  assumes "intErrorType d \<noteq> errors_smpro" "intErrorType d \<noteq> errors_pmpro"
  shows "logErrors ul tabs ef d (Some [''ff'']) w = Inr (1, w)"
  using assms
  by (simp add: logErrors_def parseAndLogErrors_def tokens_def c_str_def Let_def)

lemma other_categories_return:
  assumes "intErrorType d \<noteq> errors_mem_ue" "intErrorType d \<noteq> errors_mem_ce"
  shows "\<exists>w'. logErrorToRedfish d f w = Inr w'"
  using assms by (simp add: logErrorToRedfish_def Let_def)

text \<open>The line "0x 1 2 3 4" under the descriptor of row 0 (socket 0, \<open>errors_core_ue\<close>).\<close>

lemma malformed_line_core:
  "parseAndLogErrors 32 ef (errorTypeTable ! 0) ''0x 1 2 3 4'' w =
     Inr (1, w\<lparr>trace := trace w @
       [AddSelOem ''OEM RAS error:''
          [0x3A, 0xCD, 0x00, 0x07, 140, 0x00, 0x01, 0x00, 0x02, 0xFF, 0xFF, 0xFF] 0xC0,
        JournalSend ''OpenBMC.0.1.CPUError.Critical''
          [''UE_CPU_IError: CPM Core 0 Socket0 CPM2''],
        System ''touch /tmp/fault_RAS_UE'']\<rparr>)"
proof -
  let ?d = "errorTypeTable ! 0"
  let ?f = "parseErrorFields 32 ef ?d (tokens ''0x 1 2 3 4'')"
  have d: "errName ?d = ''UE_CPU_IError''" "ErrorData.errType ?d = 0x07" "errNum ?d = 140"
    "intErrorType ?d = errors_core_ue" "ErrorData.redFishMsgID ?d = ''CPUError''"
    by (simp_all add: errorTypeTable_def mkErrorData_def ras_consts)
  have f: "ErrorFields.errType ?f = 0" "subType ?f = 1" "instance' ?f = 2"
    unfolding tokens_0x
    by (simp_all add: parseErrorFields_def Let_def parse8_0x parse_1_2)
  have sd: "showDec 0 = ''0''" "showDec 2 = ''2''"
    by (simp_all add: showDec.simps digitChar_def)
  have key: "map_of mapOfOccur 0x0001 = Some (mkErrorInfo 0 1 2 ''CPM Core 0'' ''Socket%s CPM%s'')"
    by (simp add: mapOfOccur_def)
  have red: "logErrorToRedfish ?d ?f w' =
     Inr (w'\<lparr>trace := trace w' @
       [JournalSend ''OpenBMC.0.1.CPUError.Critical''
          [''UE_CPU_IError: CPM Core 0 Socket0 CPM2''],
        System ''touch /tmp/fault_RAS_UE'']\<rparr>)" for w'
    unfolding logErrorToRedfish_def Let_def f d
    by (simp add: key mkErrorInfo_def sd snprintf_def sd_journal_send_def std_system_def ras_consts)
  have sel: "logErrorToIpmiSEL ?d ?f w' =
        w'\<lparr>trace := trace w' @ [AddSelOem ''OEM RAS error:''
           [0x3A, 0xCD, 0x00, 0x07, 140, 0x00, 0x01, 0x00, 0x02, 0xFF, 0xFF, 0xFF] 0xC0]\<rparr>" for w'
    unfolding logErrorToIpmiSEL_def Let_def f d sel_payload
    by (simp add: addSelOem_def ras_consts)
  show ?thesis
    unfolding parseAndLogErrors_def Let_def red sel
    by (simp add: tokens_0x)
qed

text \<open>
  Claim C7. The four parsers are total: each returns 0 when \<open>strtoul\<close> stops before
  the end of the string, and otherwise the value \<open>strtoul\<close> read, cut to the result's
  width. In particular a string with a character that is neither a hexadecimal digit,
  nor white space, a sign or an \<open>x\<close> parses to 0, and a non-empty string of hexadecimal
  digits parses to its value (the largest \<open>unsigned long\<close> when it does not fit) modulo
  \<open>2 ^ width\<close>. (\<open>strtoul\<close> reads a C string: it sees the characters before the first
  NUL.) The line "0x 1 2 3 4" parses with \<open>errType = 0\<close>. Under a descriptor
  of a category other than memory (and other than the two firmware categories, which
  have their own parser) the line is logged, the parser returns 1, and the lines after it
  in the file are processed. Under a descriptor of a memory category the last part of
  the claim fails, and not because of the token "0x": like every memory record
  of five tokens or more, the line reaches the call of \<open>sd_journal_send\<close> that has no
  \<open>NULL\<close>. For row 1 of the table (\<open>errors_mem_ue\<close>) and an \<open>unsigned long\<close> of two
  bits or more, \<open>parseAndLogErrors\<close> stops at that call, after the SEL record and the
  memory entry, and \<open>logErrors\<close> stops with it, whatever lines follow.
\<close>

theorem malformed_token_line:
  "parseHexStrToUInt8 ul s =
     (if snd (strtoul16 ul (c_str s)) \<noteq> [] then 0 else of_nat (fst (strtoul16 ul (c_str s)))) \<and>
   parseHexStrToUInt16 ul s =
     (if snd (strtoul16 ul (c_str s)) \<noteq> [] then 0 else of_nat (fst (strtoul16 ul (c_str s)))) \<and>
   parseHexStrToUInt32 ul s =
     (if snd (strtoul16 ul (c_str s)) \<noteq> [] then 0 else of_nat (fst (strtoul16 ul (c_str s)))) \<and>
   parseHexStrToUInt64 s =
     (if snd (strtoul16 64 (c_str s)) \<noteq> [] then 0 else of_nat (fst (strtoul16 64 (c_str s)))) \<and>
   (c \<in> set (c_str g) \<and> \<not> isxdigit c \<and> \<not> isspace c \<and>
    c \<noteq> CHR ''+'' \<and> c \<noteq> CHR ''-'' \<and> c \<noteq> CHR ''x'' \<and> c \<noteq> CHR ''X'' \<longrightarrow>
      parseHexStrToUInt8 ul g = 0 \<and> parseHexStrToUInt16 ul g = 0 \<and>
      parseHexStrToUInt32 ul g = 0 \<and> parseHexStrToUInt64 g = 0) \<and>
   (h \<noteq> [] \<and> (\<forall>c\<in>set h. isxdigit c) \<longrightarrow>
      unat (parseHexStrToUInt8 ul h) = min (hexValue h) (2 ^ ul - 1) mod 2 ^ 8 \<and>
      unat (parseHexStrToUInt16 ul h) = min (hexValue h) (2 ^ ul - 1) mod 2 ^ 16 \<and>
      unat (parseHexStrToUInt32 ul h) = min (hexValue h) (2 ^ ul - 1) mod 2 ^ 32 \<and>
      unat (parseHexStrToUInt64 h) = min (hexValue h) (2 ^ 64 - 1) mod 2 ^ 64) \<and>
   ErrorFields.errType (parseErrorFields ul ef d (tokens ''0x 1 2 3 4'')) = 0 \<and>
   (intErrorType d \<noteq> errors_mem_ue \<and> intErrorType d \<noteq> errors_mem_ce \<and>
    intErrorType d \<noteq> errors_smpro \<and> intErrorType d \<noteq> errors_pmpro \<longrightarrow>
      (\<exists>w'. parseAndLogErrors ul ef d ''0x 1 2 3 4'' w = Inr (1, w') \<and>
            logErrors ul tabs ef d (Some (''0x 1 2 3 4'' # rest)) w =
            logErrors ul tabs ef d (Some rest) w')) \<and>
   intErrorType (errorTypeTable ! 1) = errors_mem_ue \<and>
   (2 \<le> ul \<longrightarrow>
   parseAndLogErrors ul ef (errorTypeTable ! 1) ''0x 1 2 3 4'' w =
     Inl (NoSentinel ''OpenBMC.0.1.MemoryExtendedECCUEData.Critical''
            [unat (ucast (drop_bit 32 (misc0 ef) AND 0xf) :: u8),
             unat (ucast (drop_bit 10 (misc0 ef) AND 0x3ffff) :: u8),
             unat (ucast (push_bit 3 (misc0 ef AND 0x3ff)) :: u8)]
            (w\<lparr>trace := trace w @
               [AddSelOem ''OEM RAS error:''
                  [0x3A, 0xCD, 0x00, 0x0C, 168, 0x00, 0x01, 0x00, 0x02, 0xFF, 0xFF, 0xFF] 0xC0,
                JournalSend ''OpenBMC.0.1.MemoryECCUncorrectable.Critical''
                  [''0'', ''2'', ''255'', ''255'']]\<rparr>)) \<and>
   logErrors ul tabs ef (errorTypeTable ! 1) (Some (''0x 1 2 3 4'' # rest)) w =
     Inl (NoSentinel ''OpenBMC.0.1.MemoryExtendedECCUEData.Critical''
            [unat (ucast (drop_bit 32 (misc0 ef) AND 0xf) :: u8),
             unat (ucast (drop_bit 10 (misc0 ef) AND 0x3ffff) :: u8),
             unat (ucast (push_bit 3 (misc0 ef AND 0x3ff)) :: u8)]
            (w\<lparr>trace := trace w @
               [AddSelOem ''OEM RAS error:''
                  [0x3A, 0xCD, 0x00, 0x0C, 168, 0x00, 0x01, 0x00, 0x02, 0xFF, 0xFF, 0xFF] 0xC0,
                JournalSend ''OpenBMC.0.1.MemoryECCUncorrectable.Critical''
                  [''0'', ''2'', ''255'', ''255'']]\<rparr>)))"
proof -
  have a: "parseHexStrToUInt8 ul s =
     (if snd (strtoul16 ul (c_str s)) \<noteq> [] then 0 else of_nat (fst (strtoul16 ul (c_str s))))"
    "parseHexStrToUInt16 ul s =
     (if snd (strtoul16 ul (c_str s)) \<noteq> [] then 0 else of_nat (fst (strtoul16 ul (c_str s))))"
    "parseHexStrToUInt32 ul s =
     (if snd (strtoul16 ul (c_str s)) \<noteq> [] then 0 else of_nat (fst (strtoul16 ul (c_str s))))"
    "parseHexStrToUInt64 s =
     (if snd (strtoul16 64 (c_str s)) \<noteq> [] then 0 else of_nat (fst (strtoul16 64 (c_str s))))"
    by (simp_all add: parseHexStrToUInt8_def parseHexStrToUInt16_def parseHexStrToUInt32_def
        parseHexStrToUInt64_def mask_all_ones split_beta)
  have b: "c \<in> set (c_str g) \<and> \<not> isxdigit c \<and> \<not> isspace c \<and>
    c \<noteq> CHR ''+'' \<and> c \<noteq> CHR ''-'' \<and> c \<noteq> CHR ''x'' \<and> c \<noteq> CHR ''X'' \<longrightarrow>
      parseHexStrToUInt8 ul g = 0 \<and> parseHexStrToUInt16 ul g = 0 \<and>
      parseHexStrToUInt32 ul g = 0 \<and> parseHexStrToUInt64 g = 0"
    using parse_garbage by blast
  have c: "h \<noteq> [] \<and> (\<forall>c\<in>set h. isxdigit c) \<longrightarrow>
      unat (parseHexStrToUInt8 ul h) = min (hexValue h) (2 ^ ul - 1) mod 2 ^ 8 \<and>
      unat (parseHexStrToUInt16 ul h) = min (hexValue h) (2 ^ ul - 1) mod 2 ^ 16 \<and>
      unat (parseHexStrToUInt32 ul h) = min (hexValue h) (2 ^ ul - 1) mod 2 ^ 32 \<and>
      unat (parseHexStrToUInt64 h) = min (hexValue h) (2 ^ 64 - 1) mod 2 ^ 64"
    using parse_digits by blast
  have e1: "ErrorFields.errType (parseErrorFields ul ef d (tokens ''0x 1 2 3 4'')) = 0"
    by (simp add: tokens_0x parseErrorFields_def Let_def parse8_0x)
  have e2: "intErrorType d \<noteq> errors_mem_ue \<and> intErrorType d \<noteq> errors_mem_ce \<and>
    intErrorType d \<noteq> errors_smpro \<and> intErrorType d \<noteq> errors_pmpro \<longrightarrow>
      (\<exists>w'. parseAndLogErrors ul ef d ''0x 1 2 3 4'' w = Inr (1, w') \<and>
            logErrors ul tabs ef d (Some (''0x 1 2 3 4'' # rest)) w =
            logErrors ul tabs ef d (Some rest) w')"
  proof (intro impI, elim conjE)
    assume m: "intErrorType d \<noteq> errors_mem_ue" "intErrorType d \<noteq> errors_mem_ce"
      and i: "intErrorType d \<noteq> errors_smpro" "intErrorType d \<noteq> errors_pmpro"
    obtain w' where w': "logErrorToRedfish d (parseErrorFields ul ef d (tokens ''0x 1 2 3 4''))
        (logErrorToIpmiSEL d (parseErrorFields ul ef d (tokens ''0x 1 2 3 4'')) w) = Inr w'"
      using other_categories_return[OF m] by blast
    have p: "parseAndLogErrors ul ef d ''0x 1 2 3 4'' w = Inr (1, w')"
      unfolding parseAndLogErrors_def Let_def w' by (simp add: tokens_0x)
    have "logErrors ul tabs ef d (Some (''0x 1 2 3 4'' # rest)) w =
          logErrors ul tabs ef d (Some rest) w'"
      using logErrors_Cons_Inr[OF i, of ul ef "''0x 1 2 3 4''" w 1 w'] p
      by (simp add: c_str_0x)
    with p show "\<exists>w'. parseAndLogErrors ul ef d ''0x 1 2 3 4'' w = Inr (1, w') \<and>
            logErrors ul tabs ef d (Some (''0x 1 2 3 4'' # rest)) w =
            logErrors ul tabs ef d (Some rest) w'" by blast
  qed
  let ?d = "errorTypeTable ! 1"
  let ?f = "parseErrorFields ul ef ?d (tokens ''0x 1 2 3 4'')"
  have d: "errName ?d = ''UE_Memory_IErr''" "ErrorData.errType ?d = 0x0C" "errNum ?d = 168"
    "intErrorType ?d = errors_mem_ue" "ErrorData.redFishMsgID ?d = ''MemoryECCUncorrectable''"
    by (simp_all add: errorTypeTable_def mkErrorData_def ras_consts)
  have f: "ErrorFields.errType ?f = 0" "subType ?f = 1" "instance' ?f = 2"
    "misc0 ?f = misc0 ef" if "2 \<le> ul"
    unfolding tokens_0x
    by (simp_all add: parseErrorFields_def Let_def parse8_0x parse_1_2[OF that])
  have sd: "showDec 0 = ''0''" "showDec 255 = ''255''" "showHex 2 = ''2''"
    by (simp_all add: showDec.simps showHex.simps digitChar_def)
  have key: "map_of mapOfOccur 0x0001 = Some (mkErrorInfo 0 1 2 ''CPM Core 0'' ''Socket%s CPM%s'')"
    by (simp add: mapOfOccur_def)
  have red: "logErrorToRedfish ?d ?f w' =
     Inl (NoSentinel ''OpenBMC.0.1.MemoryExtendedECCUEData.Critical''
            [unat (ucast (drop_bit 32 (misc0 ef) AND 0xf) :: u8),
             unat (ucast (drop_bit 10 (misc0 ef) AND 0x3ffff) :: u8),
             unat (ucast (push_bit 3 (misc0 ef AND 0x3ff)) :: u8)]
            (w'\<lparr>trace := trace w' @
               [JournalSend ''OpenBMC.0.1.MemoryECCUncorrectable.Critical''
                  [''0'', ''2'', ''255'', ''255'']]\<rparr>))" if "2 \<le> ul" for w'
    unfolding logErrorToRedfish_def Let_def f[OF that] d
    by (simp add: key mkErrorInfo_def sd snprintf_def sd_journal_send_def ras_consts)
  have sel: "logErrorToIpmiSEL ?d ?f w' =
        w'\<lparr>trace := trace w' @ [AddSelOem ''OEM RAS error:''
           [0x3A, 0xCD, 0x00, 0x0C, 168, 0x00, 0x01, 0x00, 0x02, 0xFF, 0xFF, 0xFF] 0xC0]\<rparr>" if "2 \<le> ul" for w'
    unfolding logErrorToIpmiSEL_def Let_def f[OF that] d sel_payload
    by (simp add: addSelOem_def ras_consts)
  have e3: "parseAndLogErrors ul ef ?d ''0x 1 2 3 4'' w =
     Inl (NoSentinel ''OpenBMC.0.1.MemoryExtendedECCUEData.Critical''
            [unat (ucast (drop_bit 32 (misc0 ef) AND 0xf) :: u8),
             unat (ucast (drop_bit 10 (misc0 ef) AND 0x3ffff) :: u8),
             unat (ucast (push_bit 3 (misc0 ef AND 0x3ff)) :: u8)]
            (w\<lparr>trace := trace w @
               [AddSelOem ''OEM RAS error:''
                  [0x3A, 0xCD, 0x00, 0x0C, 168, 0x00, 0x01, 0x00, 0x02, 0xFF, 0xFF, 0xFF] 0xC0,
                JournalSend ''OpenBMC.0.1.MemoryECCUncorrectable.Critical''
                  [''0'', ''2'', ''255'', ''255'']]\<rparr>))" if "2 \<le> ul"
    unfolding parseAndLogErrors_def Let_def red[OF that] sel[OF that]
    by (simp add: tokens_0x)
  have n: "intErrorType ?d \<noteq> errors_smpro" "intErrorType ?d \<noteq> errors_pmpro"
    unfolding d by (simp_all add: ras_consts)
  have e4: "logErrors ul tabs ef ?d (Some (''0x 1 2 3 4'' # rest)) w =
     Inl (NoSentinel ''OpenBMC.0.1.MemoryExtendedECCUEData.Critical''
            [unat (ucast (drop_bit 32 (misc0 ef) AND 0xf) :: u8),
             unat (ucast (drop_bit 10 (misc0 ef) AND 0x3ffff) :: u8),
             unat (ucast (push_bit 3 (misc0 ef AND 0x3ff)) :: u8)]
            (w\<lparr>trace := trace w @
               [AddSelOem ''OEM RAS error:''
                  [0x3A, 0xCD, 0x00, 0x0C, 168, 0x00, 0x01, 0x00, 0x02, 0xFF, 0xFF, 0xFF] 0xC0,
                JournalSend ''OpenBMC.0.1.MemoryECCUncorrectable.Critical''
                  [''0'', ''2'', ''255'', ''255'']]\<rparr>))" if "2 \<le> ul"
    by (rule logErrors_Cons_Inl[OF n]) (unfold c_str_0x, rule e3[OF that])
  have e34: "2 \<le> ul \<longrightarrow>
   parseAndLogErrors ul ef (errorTypeTable ! 1) ''0x 1 2 3 4'' w =
     Inl (NoSentinel ''OpenBMC.0.1.MemoryExtendedECCUEData.Critical''
            [unat (ucast (drop_bit 32 (misc0 ef) AND 0xf) :: u8),
             unat (ucast (drop_bit 10 (misc0 ef) AND 0x3ffff) :: u8),
             unat (ucast (push_bit 3 (misc0 ef AND 0x3ff)) :: u8)]
            (w\<lparr>trace := trace w @
               [AddSelOem ''OEM RAS error:''
                  [0x3A, 0xCD, 0x00, 0x0C, 168, 0x00, 0x01, 0x00, 0x02, 0xFF, 0xFF, 0xFF] 0xC0,
                JournalSend ''OpenBMC.0.1.MemoryECCUncorrectable.Critical''
                  [''0'', ''2'', ''255'', ''255'']]\<rparr>)) \<and>
   logErrors ul tabs ef (errorTypeTable ! 1) (Some (''0x 1 2 3 4'' # rest)) w =
     Inl (NoSentinel ''OpenBMC.0.1.MemoryExtendedECCUEData.Critical''
            [unat (ucast (drop_bit 32 (misc0 ef) AND 0xf) :: u8),
             unat (ucast (drop_bit 10 (misc0 ef) AND 0x3ffff) :: u8),
             unat (ucast (push_bit 3 (misc0 ef AND 0x3ff)) :: u8)]
            (w\<lparr>trace := trace w @
               [AddSelOem ''OEM RAS error:''
                  [0x3A, 0xCD, 0x00, 0x0C, 168, 0x00, 0x01, 0x00, 0x02, 0xFF, 0xFF, 0xFF] 0xC0,
                JournalSend ''OpenBMC.0.1.MemoryECCUncorrectable.Critical''
                  [''0'', ''2'', ''255'', ''255'']]\<rparr>))"
    using e3 e4 by blast
  show ?thesis
    by (intro conjI a b c e1 e2 d(4) e34)
qed

theorem malformed_token_line_witness:
  "CHR ''g'' \<in> set (c_str ''1g'') \<and> \<not> isxdigit (CHR ''g'') \<and> \<not> isspace (CHR ''g'') \<and>
   parseHexStrToUInt8 32 ''1g'' = 0 \<and> parseHexStrToUInt64 ''1g'' = 0 \<and>
   ''1ff'' \<noteq> [] \<and> list_all isxdigit ''1ff'' \<and> hexValue ''1ff'' = 511 \<and>
   unat (parseHexStrToUInt8 32 ''1ff'') = 255 \<and>
   unat (parseHexStrToUInt16 32 ''1ff'') = 511 \<and>
   intErrorType (errorTypeTable ! 0) = errors_core_ue \<and>
   parseAndLogErrors 32
      \<lparr>ErrorFields.errType = 0, subType = 0, instance' = 0, status = 0, address = 0,
       misc0 = 0, misc1 = 0, misc2 = 0, misc3 = 0\<rparr>
      (errorTypeTable ! 0) ''0x 1 2 3 4'' initialWorld =
     Inr (1, initialWorld\<lparr>trace :=
       [AddSelOem ''OEM RAS error:''
          [0x3A, 0xCD, 0x00, 0x07, 140, 0x00, 0x01, 0x00, 0x02, 0xFF, 0xFF, 0xFF] 0xC0,
        JournalSend ''OpenBMC.0.1.CPUError.Critical''
          [''UE_CPU_IError: CPM Core 0 Socket0 CPM2''],
        System ''touch /tmp/fault_RAS_UE'']\<rparr>) \<and>
   logErrors 32
      \<lparr>NUM_LOCAL_CODES = 0, localCodes = [], NUM_IMAGE_CODES = 0, imageCodes = [],
       NUM_ERROR_CODES = 0, errorCodes = [], NUM_DIRS = 0, directions = []\<rparr>
      \<lparr>ErrorFields.errType = 0, subType = 0, instance' = 0, status = 0, address = 0,
       misc0 = 0, misc1 = 0, misc2 = 0, misc3 = 0\<rparr>
      (errorTypeTable ! 0) (Some [''0x 1 2 3 4'', ''ff'']) initialWorld =
     Inr (1, initialWorld\<lparr>trace :=
       [AddSelOem ''OEM RAS error:''
          [0x3A, 0xCD, 0x00, 0x07, 140, 0x00, 0x01, 0x00, 0x02, 0xFF, 0xFF, 0xFF] 0xC0,
        JournalSend ''OpenBMC.0.1.CPUError.Critical''
          [''UE_CPU_IError: CPM Core 0 Socket0 CPM2''],
        System ''touch /tmp/fault_RAS_UE'']\<rparr>) \<and>
   (2 :: nat) \<le> 32 \<and>
   parseAndLogErrors 32
      \<lparr>ErrorFields.errType = 0, subType = 0, instance' = 0, status = 0, address = 0,
       misc0 = 0x0000000100040020, misc1 = 0, misc2 = 0, misc3 = 0\<rparr>
      (errorTypeTable ! 1) ''0x 1 2 3 4'' initialWorld =
     Inl (NoSentinel ''OpenBMC.0.1.MemoryExtendedECCUEData.Critical'' [1, 0, 0]
            (initialWorld\<lparr>trace :=
               [AddSelOem ''OEM RAS error:''
                  [0x3A, 0xCD, 0x00, 0x0C, 168, 0x00, 0x01, 0x00, 0x02, 0xFF, 0xFF, 0xFF] 0xC0,
                JournalSend ''OpenBMC.0.1.MemoryECCUncorrectable.Critical''
                  [''0'', ''2'', ''255'', ''255'']]\<rparr>)) \<and>
   logErrors 32
      \<lparr>NUM_LOCAL_CODES = 0, localCodes = [], NUM_IMAGE_CODES = 0, imageCodes = [],
       NUM_ERROR_CODES = 0, errorCodes = [], NUM_DIRS = 0, directions = []\<rparr>
      \<lparr>ErrorFields.errType = 0, subType = 0, instance' = 0, status = 0, address = 0,
       misc0 = 0x0000000100040020, misc1 = 0, misc2 = 0, misc3 = 0\<rparr>
      (errorTypeTable ! 1) (Some [''0x 1 2 3 4'', ''ff'']) initialWorld =
     Inl (NoSentinel ''OpenBMC.0.1.MemoryExtendedECCUEData.Critical'' [1, 0, 0]
            (initialWorld\<lparr>trace :=
               [AddSelOem ''OEM RAS error:''
                  [0x3A, 0xCD, 0x00, 0x0C, 168, 0x00, 0x01, 0x00, 0x02, 0xFF, 0xFF, 0xFF] 0xC0,
                JournalSend ''OpenBMC.0.1.MemoryECCUncorrectable.Critical''
                  [''0'', ''2'', ''255'', ''255'']]\<rparr>))"
proof -
  have g: "CHR ''g'' \<in> set (c_str ''1g'')" "\<not> isxdigit (CHR ''g'')" "\<not> isspace (CHR ''g'')"
    "CHR ''g'' \<noteq> CHR ''+''" "CHR ''g'' \<noteq> CHR ''-''" "CHR ''g'' \<noteq> CHR ''x''"
    "CHR ''g'' \<noteq> CHR ''X''"
    by (simp_all add: c_str_def isxdigit_def hexDigit_def isspace_def)
  have h: "''1ff'' \<noteq> []" "\<forall>c\<in>set ''1ff''. isxdigit c" "hexValue ''1ff'' = 511"
    by (simp_all add: isxdigit_def hexDigit_def hexValue_def)
  have e: "intErrorType (errorTypeTable ! 0) = errors_core_ue"
    by (simp add: errorTypeTable_def mkErrorData_def ras_consts)
  have n: "intErrorType (errorTypeTable ! 0) \<noteq> errors_mem_ue"
    "intErrorType (errorTypeTable ! 0) \<noteq> errors_mem_ce"
    "intErrorType (errorTypeTable ! 0) \<noteq> errors_smpro"
    "intErrorType (errorTypeTable ! 0) \<noteq> errors_pmpro"
    unfolding e by (simp_all add: ras_consts)
  note r = malformed_token_line[where ul = 32 and c = "CHR ''g''" and g = "''1g''"
      and h = "''1ff''" and s = "''0x''" and d = "errorTypeTable ! 0" and w = initialWorld
      and rest = "[''ff'']"
      and tabs = "\<lparr>NUM_LOCAL_CODES = 0, localCodes = [], NUM_IMAGE_CODES = 0, imageCodes = [],
       NUM_ERROR_CODES = 0, errorCodes = [], NUM_DIRS = 0, directions = []\<rparr>"
      and ef = "\<lparr>ErrorFields.errType = 0, subType = 0, instance' = 0, status = 0, address = 0,
       misc0 = 0, misc1 = 0, misc2 = 0, misc3 = 0\<rparr>"]
  note r' = malformed_token_line[where ul = 32 and w = initialWorld
      and rest = "[''ff'']"
      and tabs = "\<lparr>NUM_LOCAL_CODES = 0, localCodes = [], NUM_IMAGE_CODES = 0, imageCodes = [],
       NUM_ERROR_CODES = 0, errorCodes = [], NUM_DIRS = 0, directions = []\<rparr>"
      and ef = "\<lparr>ErrorFields.errType = 0, subType = 0, instance' = 0, status = 0, address = 0,
       misc0 = 0x0000000100040020, misc1 = 0, misc2 = 0, misc3 = 0\<rparr>"]
  have z: "parseHexStrToUInt8 32 ''1g'' = 0" "parseHexStrToUInt64 ''1g'' = 0"
    using r g by blast+
  have v: "unat (parseHexStrToUInt8 32 ''1ff'') = 255" "unat (parseHexStrToUInt16 32 ''1ff'') = 511"
    using r h by simp_all
  have l: "list_all isxdigit ''1ff''"
    using h(2) by (simp add: list_all_iff)
  have k: "parseAndLogErrors 32
      \<lparr>ErrorFields.errType = 0, subType = 0, instance' = 0, status = 0, address = 0,
       misc0 = 0, misc1 = 0, misc2 = 0, misc3 = 0\<rparr>
      (errorTypeTable ! 0) ''0x 1 2 3 4'' initialWorld =
     Inr (1, initialWorld\<lparr>trace :=
       [AddSelOem ''OEM RAS error:''
          [0x3A, 0xCD, 0x00, 0x07, 140, 0x00, 0x01, 0x00, 0x02, 0xFF, 0xFF, 0xFF] 0xC0,
        JournalSend ''OpenBMC.0.1.CPUError.Critical''
          [''UE_CPU_IError: CPM Core 0 Socket0 CPM2''],
        System ''touch /tmp/fault_RAS_UE'']\<rparr>)"
    using malformed_line_core[of _ initialWorld] by (simp add: initialWorld_def)
  obtain w' where w': "parseAndLogErrors 32
      \<lparr>ErrorFields.errType = 0, subType = 0, instance' = 0, status = 0, address = 0,
       misc0 = 0, misc1 = 0, misc2 = 0, misc3 = 0\<rparr>
      (errorTypeTable ! 0) ''0x 1 2 3 4'' initialWorld = Inr (1, w')"
    "logErrors 32
      \<lparr>NUM_LOCAL_CODES = 0, localCodes = [], NUM_IMAGE_CODES = 0, imageCodes = [],
       NUM_ERROR_CODES = 0, errorCodes = [], NUM_DIRS = 0, directions = []\<rparr>
      \<lparr>ErrorFields.errType = 0, subType = 0, instance' = 0, status = 0, address = 0,
       misc0 = 0, misc1 = 0, misc2 = 0, misc3 = 0\<rparr>
      (errorTypeTable ! 0) (Some [''0x 1 2 3 4'', ''ff'']) initialWorld =
     logErrors 32
      \<lparr>NUM_LOCAL_CODES = 0, localCodes = [], NUM_IMAGE_CODES = 0, imageCodes = [],
       NUM_ERROR_CODES = 0, errorCodes = [], NUM_DIRS = 0, directions = []\<rparr>
      \<lparr>ErrorFields.errType = 0, subType = 0, instance' = 0, status = 0, address = 0,
       misc0 = 0, misc1 = 0, misc2 = 0, misc3 = 0\<rparr>
      (errorTypeTable ! 0) (Some [''ff'']) w'"
    using r n by blast
  have k2: "logErrors 32
      \<lparr>NUM_LOCAL_CODES = 0, localCodes = [], NUM_IMAGE_CODES = 0, imageCodes = [],
       NUM_ERROR_CODES = 0, errorCodes = [], NUM_DIRS = 0, directions = []\<rparr>
      \<lparr>ErrorFields.errType = 0, subType = 0, instance' = 0, status = 0, address = 0,
       misc0 = 0, misc1 = 0, misc2 = 0, misc3 = 0\<rparr>
      (errorTypeTable ! 0) (Some [''0x 1 2 3 4'', ''ff'']) initialWorld =
     Inr (1, initialWorld\<lparr>trace :=
       [AddSelOem ''OEM RAS error:''
          [0x3A, 0xCD, 0x00, 0x07, 140, 0x00, 0x01, 0x00, 0x02, 0xFF, 0xFF, 0xFF] 0xC0,
        JournalSend ''OpenBMC.0.1.CPUError.Critical''
          [''UE_CPU_IError: CPM Core 0 Socket0 CPM2''],
        System ''touch /tmp/fault_RAS_UE'']\<rparr>)"
    using w' k by (simp add: logErrors_short_line[OF n(3,4)])
  have two: "(2 :: nat) \<le> 32" by simp
  have m: "parseAndLogErrors 32
      \<lparr>ErrorFields.errType = 0, subType = 0, instance' = 0, status = 0, address = 0,
       misc0 = 0x0000000100040020, misc1 = 0, misc2 = 0, misc3 = 0\<rparr>
      (errorTypeTable ! 1) ''0x 1 2 3 4'' initialWorld =
     Inl (NoSentinel ''OpenBMC.0.1.MemoryExtendedECCUEData.Critical''
            [unat (ucast (drop_bit 32 (misc0 \<lparr>ErrorFields.errType = 0, subType = 0, instance' = 0, status = 0, address = 0,
       misc0 = 0x0000000100040020, misc1 = 0, misc2 = 0, misc3 = 0\<rparr>) AND 0xf) :: u8),
             unat (ucast (drop_bit 10 (misc0 \<lparr>ErrorFields.errType = 0, subType = 0, instance' = 0, status = 0, address = 0,
       misc0 = 0x0000000100040020, misc1 = 0, misc2 = 0, misc3 = 0\<rparr>) AND 0x3ffff) :: u8),
             unat (ucast (push_bit 3 (misc0 \<lparr>ErrorFields.errType = 0, subType = 0, instance' = 0, status = 0, address = 0,
       misc0 = 0x0000000100040020, misc1 = 0, misc2 = 0, misc3 = 0\<rparr> AND 0x3ff)) :: u8)]
            (initialWorld\<lparr>trace := trace initialWorld @
               [AddSelOem ''OEM RAS error:''
                  [0x3A, 0xCD, 0x00, 0x0C, 168, 0x00, 0x01, 0x00, 0x02, 0xFF, 0xFF, 0xFF] 0xC0,
                JournalSend ''OpenBMC.0.1.MemoryECCUncorrectable.Critical''
                  [''0'', ''2'', ''255'', ''255'']]\<rparr>))"
    "logErrors 32
      \<lparr>NUM_LOCAL_CODES = 0, localCodes = [], NUM_IMAGE_CODES = 0, imageCodes = [],
       NUM_ERROR_CODES = 0, errorCodes = [], NUM_DIRS = 0, directions = []\<rparr>
      \<lparr>ErrorFields.errType = 0, subType = 0, instance' = 0, status = 0, address = 0,
       misc0 = 0x0000000100040020, misc1 = 0, misc2 = 0, misc3 = 0\<rparr>
      (errorTypeTable ! 1) (Some [''0x 1 2 3 4'', ''ff'']) initialWorld =
     Inl (NoSentinel ''OpenBMC.0.1.MemoryExtendedECCUEData.Critical''
            [unat (ucast (drop_bit 32 (misc0 \<lparr>ErrorFields.errType = 0, subType = 0, instance' = 0, status = 0, address = 0,
       misc0 = 0x0000000100040020, misc1 = 0, misc2 = 0, misc3 = 0\<rparr>) AND 0xf) :: u8),
             unat (ucast (drop_bit 10 (misc0 \<lparr>ErrorFields.errType = 0, subType = 0, instance' = 0, status = 0, address = 0,
       misc0 = 0x0000000100040020, misc1 = 0, misc2 = 0, misc3 = 0\<rparr>) AND 0x3ffff) :: u8),
             unat (ucast (push_bit 3 (misc0 \<lparr>ErrorFields.errType = 0, subType = 0, instance' = 0, status = 0, address = 0,
       misc0 = 0x0000000100040020, misc1 = 0, misc2 = 0, misc3 = 0\<rparr> AND 0x3ff)) :: u8)]
            (initialWorld\<lparr>trace := trace initialWorld @
               [AddSelOem ''OEM RAS error:''
                  [0x3A, 0xCD, 0x00, 0x0C, 168, 0x00, 0x01, 0x00, 0x02, 0xFF, 0xFF, 0xFF] 0xC0,
                JournalSend ''OpenBMC.0.1.MemoryECCUncorrectable.Critical''
                  [''0'', ''2'', ''255'', ''255'']]\<rparr>))"
    using r' two by blast+
  have m1: "parseAndLogErrors 32
      \<lparr>ErrorFields.errType = 0, subType = 0, instance' = 0, status = 0, address = 0,
       misc0 = 0x0000000100040020, misc1 = 0, misc2 = 0, misc3 = 0\<rparr>
      (errorTypeTable ! 1) ''0x 1 2 3 4'' initialWorld =
     Inl (NoSentinel ''OpenBMC.0.1.MemoryExtendedECCUEData.Critical'' [1, 0, 0]
            (initialWorld\<lparr>trace :=
               [AddSelOem ''OEM RAS error:''
                  [0x3A, 0xCD, 0x00, 0x0C, 168, 0x00, 0x01, 0x00, 0x02, 0xFF, 0xFF, 0xFF] 0xC0,
                JournalSend ''OpenBMC.0.1.MemoryECCUncorrectable.Critical''
                  [''0'', ''2'', ''255'', ''255'']]\<rparr>))"
    unfolding m by (simp add: initialWorld_def)
  have m2: "logErrors 32
      \<lparr>NUM_LOCAL_CODES = 0, localCodes = [], NUM_IMAGE_CODES = 0, imageCodes = [],
       NUM_ERROR_CODES = 0, errorCodes = [], NUM_DIRS = 0, directions = []\<rparr>
      \<lparr>ErrorFields.errType = 0, subType = 0, instance' = 0, status = 0, address = 0,
       misc0 = 0x0000000100040020, misc1 = 0, misc2 = 0, misc3 = 0\<rparr>
      (errorTypeTable ! 1) (Some [''0x 1 2 3 4'', ''ff'']) initialWorld =
     Inl (NoSentinel ''OpenBMC.0.1.MemoryExtendedECCUEData.Critical'' [1, 0, 0]
            (initialWorld\<lparr>trace :=
               [AddSelOem ''OEM RAS error:''
                  [0x3A, 0xCD, 0x00, 0x0C, 168, 0x00, 0x01, 0x00, 0x02, 0xFF, 0xFF, 0xFF] 0xC0,
                JournalSend ''OpenBMC.0.1.MemoryECCUncorrectable.Critical''
                  [''0'', ''2'', ''255'', ''255'']]\<rparr>))"
    unfolding m by (simp add: initialWorld_def)
  show ?thesis by (intro conjI g(1-3) z h(1) l h(3) v e k k2 two m1 m2)
qed

section \<open>The fault marker\<close>

lemma key_ffff_iff:
  "((push_bit 8 (ucast (a :: u8)) + ucast (b :: u8) :: u16) = 0xffff) = (a = 0xff \<and> b = 0xff)"
proof
  let ?t = "push_bit 8 (ucast a :: u16) OR ucast b"
  have and0: "push_bit 8 (ucast a :: u16) AND ucast b = 0"
    by (rule bit_word_eqI) (auto simp: bit_simps dest: bit_imp_le_length)
  have t: "push_bit 8 (ucast a) + ucast b = ?t"
    using disjunctive_add_eq_or[OF and0] .
  have lo: "(ucast ?t :: u8) = b"
    by (rule bit_word_eqI) (auto simp: bit_simps dest: bit_imp_le_length)
  have hi: "(ucast (drop_bit 8 ?t) :: u8) = a"
    by (rule bit_word_eqI) (auto simp: bit_simps dest: bit_imp_le_length)
  assume "(push_bit 8 (ucast a) + ucast b :: u16) = 0xffff"
  then have ff: "?t = 0xffff" using t by simp
  have "b = 0xff" using lo unfolding ff by simp
  moreover have "a = 0xff" using hi unfolding ff by simp
  ultimately show "a = 0xff \<and> b = 0xff" by simp
next
  assume "a = 0xff \<and> b = 0xff"
  then show "(push_bit 8 (ucast a) + ucast b :: u16) = 0xffff" by simp
qed

text \<open>
  A record of the core, PCIe or other uncorrectable categories that is not the overflow
  record ends with the command that creates the marker. (A memory record stops before
  it: see the section on memory errors.)
\<close>

lemma ue_record_creates_marker:
  assumes "intErrorType d = errors_core_ue \<or> intErrorType d = errors_pcie_ue \<or>
           intErrorType d = errors_other_ue"
    and "\<not> (ErrorFields.errType f = 0xff \<and> subType f = 0xff)"
  shows "\<exists>w'. logErrorToRedfish d f w = Inr w' \<and> last (trace w') = System createFlagCmd"
  using assms
  by (auto simp: logErrorToRedfish_def Let_def key_ffff_iff std_system_def ras_consts)

text \<open>
  Claim C3. The claim asks for the marker after every record of an uncorrectable
  category, the overflow record included. For the overflow record the code returns from
  \<open>logErrorToRedfish\<close> before it reaches \<open>std::system(createFlagCmd)\<close>: under the
  descriptor of row 0 (socket 0, \<open>errors_core_ue\<close>) the line
  "ff ff 0000 00000000 0000000000000000" is logged to both sinks and no command is
  issued.
\<close>

theorem overflow_record_under_ue_leaves_no_marker:
  "parseAndLogErrors 32 ef (errorTypeTable ! 0) ''ff ff 0000 00000000 0000000000000000'' w =
     Inr (1, w\<lparr>trace := trace w @
        [AddSelOem ''OEM RAS error:''
           [0x3A, 0xCD, 0x00, 0x07, 140, 0xFF, 0xFF, 0x00, 0x00, 0xFF, 0xFF, 0xFF] 0xC0,
         JournalSend ''OpenBMC.0.1.AmpereCritical.Critical''
           [''UE_CPU_IError: Overflow'', ''Socket0'']]\<rparr>) \<and>
   intErrorType (errorTypeTable ! 0) = errors_core_ue \<and>
   (case parseAndLogErrors 32 ef (errorTypeTable ! 0)
           ''ff ff 0000 00000000 0000000000000000'' initialWorld of
      Inl e \<Rightarrow> False
    | Inr (r, w') \<Rightarrow> System createFlagCmd \<notin> set (trace w'))"
proof -
  let ?d = "errorTypeTable ! 0"
  let ?line = "''ff ff 0000 00000000 0000000000000000''"
  let ?f = "parseErrorFields 32 ef ?d (tokens ?line)"
  have f: "ErrorFields.errType ?f = 0xff" "subType ?f = 0xff" "instance' ?f = 0"
    by (simp_all add: tokens_overflow parseErrorFields_def Let_def parse8_ff
        errorTypeTable_def mkErrorData_def)
  have d: "errName ?d = ''UE_CPU_IError''" "ErrorData.errType ?d = 0x07" "errNum ?d = 140"
    "intErrorType ?d = errors_core_ue"
    by (simp_all add: errorTypeTable_def mkErrorData_def ras_consts)
  have sd: "showDec 0 = ''0''"
    by (simp add: showDec.simps digitChar_def)
  have red: "logErrorToRedfish ?d ?f w' =
        Inr (w'\<lparr>trace := trace w' @ [JournalSend ''OpenBMC.0.1.AmpereCritical.Critical''
                 [''UE_CPU_IError: Overflow'', ''Socket0'']]\<rparr>)" for w'
    unfolding logErrorToRedfish_def Let_def f d
    by (simp add: overflow_key mkErrorInfo_def sd snprintf_def sd_journal_send_def ras_consts)
  have sel: "logErrorToIpmiSEL ?d ?f w' =
        w'\<lparr>trace := trace w' @ [AddSelOem ''OEM RAS error:''
           [0x3A, 0xCD, 0x00, 0x07, 140, 0xFF, 0xFF, 0x00, 0x00, 0xFF, 0xFF, 0xFF] 0xC0]\<rparr>" for w'
    unfolding logErrorToIpmiSEL_def Let_def f d sel_payload
    by (simp add: addSelOem_def ras_consts)
  have run: "parseAndLogErrors 32 ef ?d ?line w' =
     Inr (1, w'\<lparr>trace := trace w' @
        [AddSelOem ''OEM RAS error:''
           [0x3A, 0xCD, 0x00, 0x07, 140, 0xFF, 0xFF, 0x00, 0x00, 0xFF, 0xFF, 0xFF] 0xC0,
         JournalSend ''OpenBMC.0.1.AmpereCritical.Critical''
           [''UE_CPU_IError: Overflow'', ''Socket0'']]\<rparr>)" for w'
    unfolding parseAndLogErrors_def Let_def red sel
    by (simp add: tokens_overflow)
  show ?thesis
    by (simp add: run d initialWorld_def)
qed

section \<open>Memory errors: bank, row and column\<close>

text \<open>
  A record of a memory category that is not the overflow record writes its memory entry
  and then reaches the call without \<open>NULL\<close>. The values handed to that call are the bank
  \<open>(misc0 >> 32) & 0xf\<close>, and the row \<open>(misc0 >> 10) & 0x3ffff\<close> and the column
  \<open>(misc0 & 0x3ff) << 3\<close> modulo 256, the three variables being \<open>u_int8_t\<close>.
\<close>

lemma unat_ucast_u8: "unat (ucast (x :: u64) :: u8) = unat x mod 256"
  by (simp add: unsigned_ucast_eq take_bit_eq_mod)

lemma bank_fits: "unat ((x :: u64) AND 0xf) mod 256 = unat (x AND 0xf)"
proof -
  have "x AND 0xf \<le> 0xf" by (rule word_and_le1)
  then have "unat (x AND 0xf) \<le> unat (0xf :: u64)" by (rule word_le_nat_alt[THEN iffD1])
  then show ?thesis by simp
qed

lemma mem_record_stops_at_ecc_call:
  assumes "intErrorType d = errors_mem_ue \<or> intErrorType d = errors_mem_ce"
    and "\<not> (ErrorFields.errType f = 0xff \<and> subType f = 0xff)"
  shows "\<exists>msgid args. logErrorToRedfish d f w =
           Inl (NoSentinel
                  (if intErrorType d = errors_mem_ue
                   then ''OpenBMC.0.1.MemoryExtendedECCUEData.Critical''
                   else ''OpenBMC.0.1.MemoryExtendedECCCEData.Warning'')
                  [unat (drop_bit 32 (misc0 f) AND 0xf),
                   unat (drop_bit 10 (misc0 f) AND 0x3ffff) mod 256,
                   unat (push_bit 3 (misc0 f AND 0x3ff)) mod 256]
                  (w\<lparr>trace := trace w @ [JournalSend msgid args]\<rparr>))"
proof -
  have k: "(push_bit 8 (ucast (ErrorFields.errType f)) + ucast (subType f) :: u16) \<noteq> 0xffff"
    using assms(2) by (simp add: key_ffff_iff)
  have m: "intErrorType d \<noteq> errors_core_ue" "intErrorType d \<noteq> errors_core_ce"
    using assms(1) by (auto simp: ras_consts)
  show ?thesis
    unfolding logErrorToRedfish_def Let_def
    using k m assms(1)
    by (auto simp: unat_ucast_u8 bank_fits sd_journal_send_def snprintf_def ras_consts)
qed

text \<open>
  Claim C4. The claim gives \<open>row = (misc0 >> 10) & 0x3FFFF\<close> and
  \<open>col = (misc0 & 0x3FF) << 3\<close> as the values reported in the extended-ECC entry. The
  code stores both into \<open>u_int8_t\<close> variables, so the call is handed their low eight
  bits; and the call is the one whose argument list has no \<open>NULL\<close>, so that the entry is
  not a defined effect of the program. Under the descriptor of row 1 (socket 0,
  \<open>errors_mem_ue\<close>), for the line
  "01 02 0000 00000000 0000000000500000 0000000100040020 0 0 0" the field \<open>misc0\<close> is
  \<open>0x0000000100040020\<close> and the formulas give bank 1, row 256 and column 256; the call
  is handed 1, 0 and 0, and the program's defined behaviour ends there, after the SEL
  record and the memory entry (whose fourth argument is the rank, 5).
\<close>

theorem mem_extended_ecc_call:
  "parseAndLogErrors 32 ef (errorTypeTable ! 1)
      ''01 02 0000 00000000 0000000000500000 0000000100040020 0 0 0'' w =
     Inl (NoSentinel ''OpenBMC.0.1.MemoryExtendedECCUEData.Critical'' [1, 0, 0]
            (w\<lparr>trace := trace w @
               [AddSelOem ''OEM RAS error:''
                  [0x3A, 0xCD, 0x00, 0x0C, 168, 0x01, 0x02, 0x00, 0x00, 0xFF, 0xFF, 0xFF] 0xC0,
                JournalSend ''OpenBMC.0.1.MemoryECCUncorrectable.Critical''
                  [''0'', ''0'', ''0'', ''5'']]\<rparr>)) \<and>
   misc0 (parseErrorFields 32 ef (errorTypeTable ! 1)
      (tokens ''01 02 0000 00000000 0000000000500000 0000000100040020 0 0 0'')) =
     0x0000000100040020 \<and>
   unat (drop_bit 32 (0x0000000100040020 :: u64) AND 0xf) = 1 \<and>
   unat (drop_bit 10 (0x0000000100040020 :: u64) AND 0x3ffff) = 256 \<and>
   unat (push_bit 3 ((0x0000000100040020 :: u64) AND 0x3ff)) = 256"
proof -
  let ?d = "errorTypeTable ! 1"
  let ?line = "''01 02 0000 00000000 0000000000500000 0000000100040020 0 0 0''"
  have tk: "tokens ?line = [''01'', ''02'', ''0000'', ''00000000'', ''0000000000500000'',
       ''0000000100040020'', ''0'', ''0'', ''0'']"
    by code_simp
  let ?f = "parseErrorFields 32 ef ?d (tokens ?line)"
  have f: "ErrorFields.errType ?f = 1" "subType ?f = 2" "instance' ?f = 0"
    "address ?f = 0x500000" "misc0 ?f = 0x0000000100040020"
    unfolding tk by (simp_all add: parseErrorFields_def parse_defs)
  have d: "errName ?d = ''UE_Memory_IErr''" "ErrorData.errType ?d = 0x0C" "errNum ?d = 168"
    "intErrorType ?d = errors_mem_ue" "ErrorData.redFishMsgID ?d = ''MemoryECCUncorrectable''"
    by (simp_all add: errorTypeTable_def mkErrorData_def ras_consts)
  have sd: "showDec 0 = ''0''" "showDec 5 = ''5''" "showHex 0 = ''0''"
    by (simp_all add: showDec.simps showHex.simps digitChar_def)
  have key: "map_of mapOfOccur 0x0102 = Some (mkErrorInfo 1 2 2 ''MCU ERR Record 2 (DRAM UE)'' ''Socket%s MCU%s'')"
    by (simp add: mapOfOccur_def)
  have red: "logErrorToRedfish ?d ?f w' =
     Inl (NoSentinel ''OpenBMC.0.1.MemoryExtendedECCUEData.Critical'' [1, 0, 0]
            (w'\<lparr>trace := trace w' @
               [JournalSend ''OpenBMC.0.1.MemoryECCUncorrectable.Critical''
                  [''0'', ''0'', ''0'', ''5'']]\<rparr>))" for w'
    unfolding logErrorToRedfish_def Let_def f d
    by (simp add: key mkErrorInfo_def sd snprintf_def sd_journal_send_def ras_consts)
  have sel: "logErrorToIpmiSEL ?d ?f w' =
        w'\<lparr>trace := trace w' @ [AddSelOem ''OEM RAS error:''
           [0x3A, 0xCD, 0x00, 0x0C, 168, 0x01, 0x02, 0x00, 0x00, 0xFF, 0xFF, 0xFF] 0xC0]\<rparr>" for w'
    unfolding logErrorToIpmiSEL_def Let_def f d sel_payload
    by (simp add: addSelOem_def ras_consts)
  have run: "parseAndLogErrors 32 ef ?d ?line w =
     Inl (NoSentinel ''OpenBMC.0.1.MemoryExtendedECCUEData.Critical'' [1, 0, 0]
            (w\<lparr>trace := trace w @
               [AddSelOem ''OEM RAS error:''
                  [0x3A, 0xCD, 0x00, 0x0C, 168, 0x01, 0x02, 0x00, 0x00, 0xFF, 0xFF, 0xFF] 0xC0,
                JournalSend ''OpenBMC.0.1.MemoryECCUncorrectable.Critical''
                  [''0'', ''0'', ''0'', ''5'']]\<rparr>))"
    unfolding parseAndLogErrors_def Let_def red sel
    by (simp add: tk)
  have v: "unat (drop_bit 32 (0x0000000100040020 :: u64) AND 0xf) = 1"
    "unat (drop_bit 10 (0x0000000100040020 :: u64) AND 0x3ffff) = 256"
    "unat (push_bit 3 ((0x0000000100040020 :: u64) AND 0x3ff)) = 256"
    by simp_all
  show ?thesis
    by (intro conjI run f(5) v)
qed

end
